theory Spec2Isabelle
  imports Main "HOL-Library.Word"
begin

section \<open>Decimal text of integers\<close>

text \<open>
  The engine moves every amount, chain id and fee through the store as decimal text.
  \<open>showInt\<close> is Go's \<^verbatim>\<open>%d\<close> and \<^verbatim>\<open>big.Int.String()\<close>; \<open>SetString10\<close> is
  \<^verbatim>\<open>new(big.Int).SetString(s, 10)\<close> of math/big: an optional sign \<^verbatim>\<open>+\<close> or \<^verbatim>\<open>-\<close>,
  then one or more decimal digits, and nothing else; \<open>None\<close> is its \<^verbatim>\<open>ok == false\<close>.
\<close>

definition digitChar :: "nat \<Rightarrow> char" where
  "digitChar d = ''0123456789'' ! d"

function showNat :: "nat \<Rightarrow> string" where
  "showNat n = (if n < 10 then [digitChar n] else showNat (n div 10) @ [digitChar (n mod 10)])"
  by pat_completeness auto
termination
  by (relation "measure (\<lambda>n. n)") auto

declare showNat.simps [simp del]

definition showInt :: "int \<Rightarrow> string" where
  "showInt i = (if i < 0 then CHR ''-'' # showNat (nat (- i)) else showNat (nat i))"

definition isDigit :: "char \<Rightarrow> bool" where
  "isDigit c = (48 \<le> (of_char c :: nat) \<and> (of_char c :: nat) \<le> 57)"

definition digitVal :: "char \<Rightarrow> nat" where
  "digitVal c = (of_char c :: nat) - 48"

definition scanDigits :: "string \<Rightarrow> nat option" where
  "scanDigits ds =
     (if ds = [] \<or> \<not> list_all isDigit ds then None
      else Some (foldl (\<lambda>a c. 10 * a + digitVal c) 0 ds))"

definition SetString10 :: "string \<Rightarrow> int option" where
  "SetString10 s =
     (case s of
        [] \<Rightarrow> None
      | c # cs \<Rightarrow>
          if c = CHR ''-'' then map_option (\<lambda>n. - int n) (scanDigits cs)
          else if c = CHR ''+'' then map_option int (scanDigits cs)
          else map_option int (scanDigits s))"

text \<open>
  \<^verbatim>\<open>x.Int64()\<close> of a big integer and the conversion \<^verbatim>\<open>int64(u)\<close> of a \<^verbatim>\<open>uint64\<close>
  keep the low 64 bits and read them as a signed number; \<^verbatim>\<open>+\<close> on \<^verbatim>\<open>int64\<close> wraps
  the same way.
\<close>

definition int64 :: "int \<Rightarrow> int" where
  "int64 x = sint (word_of_int x :: 64 word)"

section \<open>The persistent data model\<close>

text \<open>
  Modelled from the spec: the constants of packages \<^verbatim>\<open>common\<close> and \<^verbatim>\<open>model\<close> and
  of the engine's own constant file, and the three row types of package \<^verbatim>\<open>model\<close>,
  are named by \<^verbatim>\<open>swap.go\<close> but declared elsewhere. Each family of named constants is a
  datatype here (the engine only ever compares them for equality); their text, which only
  the MAC reads, is a parameter of the engine (\<open>statusText\<close>, \<open>directionText\<close>). The
  rows have the columns \<^verbatim>\<open>swap.go\<close> reads and writes.
\<close>

datatype SwapStatus =
  SwapTokenReceived | SwapQuoteRejected | SwapConfirmed | SwapSending
  | SwapSent | SwapSendFailed | SwapSuccess

datatype SwapDirection =
  SwapEth2BSC | SwapBSC2Eth | SwapMATIC2BSC | SwapMATIC2Eth | SwapBSC2MATIC | SwapEth2MATIC

datatype FillTxStatus =
  FillTxCreated | FillTxSent | FillTxSuccess | FillTxFailed | FillTxMissing

text \<open>\<open>ChainOther\<close> is any chain name other than the three the engine knows.\<close>

datatype Chain = ChainBSC | ChainETH | ChainMATIC | ChainOther string

datatype TxPhase = SeenRequest | ConfirmRequest | AckRequest

datatype TxStatus = TxStatusInit | TxStatusConfirmed

record SwapStartTxLog =
  LogId :: nat
  Chain :: Chain
  TxHash :: string
  FromAddress :: string
  LogAmount :: string
  LogToChainId :: string
  LogHeight :: int
  LogStatus :: TxStatus
  Phase :: TxPhase
  UpdateTime :: int

record Swap =
  ID :: nat
  Status :: SwapStatus
  Sponsor :: string
  ToChainId :: string
  BEP20Addr :: string
  ERC20Addr :: string
  Symbol :: string
  Amount :: string
  Decimals :: int
  Direction :: SwapDirection
  StartTxHash :: string
  FillTxHash :: string
  Log :: string
  RecordHash :: string

record SwapFillTx =
  FillID :: nat
  FillDirection :: SwapDirection
  StartSwapTxHash :: string
  FillSwapTxHash :: string
  GasPrice :: string
  Height :: int
  ConsumedFeeAmount :: string
  FillStatus :: FillTxStatus
  TrackRetryCounter :: int
  UpdatedAt :: int

text \<open>
  The store: three tables, each a list of rows in insertion order, and the
  auto-increment counters of the two tables the engine inserts into.
\<close>

record DB =
  swaps :: "Swap list"
  swapFillTxs :: "SwapFillTx list"
  swapStartTxLogs :: "SwapStartTxLog list"
  nextSwapID :: nat
  nextFillID :: nat

text \<open>
  The conditions and arguments of the finalizer's \<^verbatim>\<open>Where\<close> calls, and the two ways
  a database driver treats a statement that is given more arguments than it has
  placeholders: database/sql refuses it for a driver that prepares the statement
  (\<^verbatim>\<open>sql: expected n arguments, got m\<close>), other drivers bind the first arguments
  and drop the rest.
\<close>

datatype SqlArg = ArgFillStatus FillTxStatus | ArgDirection SwapDirection | ArgInt int

datatype FillCond = StatusEq | DirectionEq | TrackRetryLt | TrackRetryGe

datatype SqlDriver = RefusesSurplus | DropsSurplus

text \<open>
  What the engine is built from, as far as \<^verbatim>\<open>swap.go\<close> reads it: the MAC key, the
  configuration values and the constants declared outside the file. \<open>hmacSHA256Hex k m\<close>
  stands for \<^verbatim>\<open>hex.EncodeToString\<close> of the HMAC-SHA-256 of \<open>m\<close> under key \<open>k\<close>
  (crypto/hmac, crypto/sha256, encoding/hex). \<open>failedSetString s\<close> is the value a
  \<^verbatim>\<open>big.Int\<close> holds after \<^verbatim>\<open>SetString\<close> has refused \<open>s\<close>, which math/big
  leaves undefined. \<open>sqlDriver\<close> and \<open>crossKindHolds\<close> are the database's part in a
  select, explained with the finalizer.
\<close>

record Engine =
  hmacCKey :: string
  hmacSHA256Hex :: "string \<Rightarrow> string \<Rightarrow> string"
  statusText :: "SwapStatus \<Rightarrow> string"
  directionText :: "SwapDirection \<Rightarrow> string"
  ETHMaxTrackRetry :: int
  BSCMaxTrackRetry :: int
  MATICMaxTrackRetry :: int
  ETHConfirmNum :: int
  BatchSize :: nat
  TrackSentTxBatchSize :: nat
  TxFailedStatus :: "64 word"
  failedSetString :: "string \<Rightarrow> int"
  sqlDriver :: SqlDriver
  crossKindHolds :: "FillCond \<Rightarrow> SqlArg \<Rightarrow> SwapFillTx \<Rightarrow> bool"

text \<open>
  A database transaction either goes through, or \<^verbatim>\<open>Begin\<close> fails, or \<^verbatim>\<open>Commit\<close>
  fails; in the last two cases nothing of it is stored.
\<close>

datatype TxFault = TxOk | BeginFails | CommitFails

text \<open>A step of a daemon returns, or panics (a nil pointer is dereferenced).\<close>

datatype 'a Run = Returns 'a | Panics 'a

fun stateOf :: "'a Run \<Rightarrow> 'a" where
  "stateOf (Returns x) = x"
| "stateOf (Panics x) = x"

section \<open>The MAC layer\<close>

definition getSwapHMAC :: "Engine \<Rightarrow> Swap \<Rightarrow> string" where
  "getSwapHMAC engine swap =
     (let material =
            statusText engine (Status swap) @ ''#'' @ Sponsor swap @ ''#'' @ BEP20Addr swap
            @ ''#'' @ ERC20Addr swap @ ''#'' @ Symbol swap @ ''#'' @ Amount swap
            @ ''#'' @ showInt (Decimals swap) @ ''#'' @ directionText engine (Direction swap)
            @ ''#'' @ StartTxHash swap @ ''#'' @ FillTxHash swap
      in hmacSHA256Hex engine (hmacCKey engine) material)"

definition verifySwap :: "Engine \<Rightarrow> Swap \<Rightarrow> bool" where
  "verifySwap engine swap = (RecordHash swap = getSwapHMAC engine swap)"

text \<open>
  Modelled from the spec: the declaration of the \<^verbatim>\<open>swap\<close> table is not in
  \<^verbatim>\<open>swap.go\<close>; the spec makes \<open>start_tx_hash\<close> unique, so \<^verbatim>\<open>tx.Create(swap)\<close>
  refuses a second row with the same start hash. Otherwise the row gets the next id.
\<close>

definition createSwapRow :: "DB \<Rightarrow> Swap \<Rightarrow> string + (Swap \<times> DB)" where
  "createSwapRow db swap =
     (if list_ex (\<lambda>r. StartTxHash r = StartTxHash swap) (swaps db)
      then Inl ''duplicate entry for start_tx_hash''
      else (let row = swap\<lparr>ID := nextSwapID db\<rparr>
            in Inr (row, db\<lparr>swaps := swaps db @ [row], nextSwapID := Suc (nextSwapID db)\<rparr>)))"

text \<open>
  \<^verbatim>\<open>tx.Save(swap)\<close>: every column of the row with the swap's id is overwritten; a
  swap whose id is in no row is inserted. \<^verbatim>\<open>First\<close> reads the row with the least id
  among those that match.
\<close>

definition saveSwapRow :: "DB \<Rightarrow> Swap \<Rightarrow> DB" where
  "saveSwapRow db swap =
     (if list_ex (\<lambda>r. ID r = ID swap) (swaps db)
      then db\<lparr>swaps := map (\<lambda>r. if ID r = ID swap then swap else r) (swaps db)\<rparr>
      else db\<lparr>swaps := swaps db @ [swap]\<rparr>)"

definition insertSwap :: "Engine \<Rightarrow> DB \<Rightarrow> Swap \<Rightarrow> string + (Swap \<times> DB)" where
  "insertSwap engine tx swap =
     createSwapRow tx (swap\<lparr>RecordHash := getSwapHMAC engine swap\<rparr>)"

text \<open>
  \<open>updateSwap\<close> returns the swap as the caller's variable holds it afterwards, and
  the store.
\<close>

definition updateSwap :: "Engine \<Rightarrow> DB \<Rightarrow> Swap \<Rightarrow> Swap \<times> DB" where
  "updateSwap engine tx swap =
     (let swap' = swap\<lparr>RecordHash := getSwapHMAC engine swap\<rparr>
      in (swap', saveSwapRow tx swap'))"

definition getSwapByStartTxHash :: "Engine \<Rightarrow> DB \<Rightarrow> string \<Rightarrow> string + Swap" where
  "getSwapByStartTxHash engine tx txHash =
     (case find (\<lambda>r. StartTxHash r = txHash) (sort_key ID (swaps tx)) of
        None \<Rightarrow> Inl ''record not found''
      | Some swap \<Rightarrow>
          if \<not> verifySwap engine swap then Inl ''hmac verification failure''
          else Inr swap)"

section \<open>Ingestor\<close>

definition zeroAddressHex :: string where
  "zeroAddressHex = ''0x0000000000000000000000000000000000000000''"

definition createSwap :: "SwapStartTxLog \<Rightarrow> Swap" where
  "createSwap txEventLog =
     (let sponsor = FromAddress txEventLog;
          amount = LogAmount txEventLog;
          toChainId = LogToChainId txEventLog;
          swapStartTxHash = TxHash txEventLog;
          swapDirection =
            (if Chain txEventLog = ChainBSC then
               (if toChainId = ''1'' \<or> toChainId = ''4'' then SwapBSC2Eth else SwapBSC2MATIC)
             else if Chain txEventLog = ChainETH then
               (if toChainId = ''56'' \<or> toChainId = ''97'' then SwapEth2BSC else SwapEth2MATIC)
             else if Chain txEventLog = ChainMATIC then
               (if toChainId = ''56'' \<or> toChainId = ''97'' then SwapMATIC2BSC else SwapMATIC2Eth)
             else SwapBSC2Eth);
          err =
            (case SetString10 (LogAmount txEventLog) of
               None \<Rightarrow> Some (''unrecongnized swap amount: '' @ LogAmount txEventLog)
             | Some swapAmount \<Rightarrow> None);
          swapStatus = (if err = None then SwapTokenReceived else SwapQuoteRejected);
          log = (case err of None \<Rightarrow> [] | Some msg \<Rightarrow> msg)
      in \<lparr>ID = 0, Status = swapStatus, Sponsor = sponsor, ToChainId = toChainId,
          BEP20Addr = zeroAddressHex, ERC20Addr = zeroAddressHex, Symbol = [],
          Amount = amount, Decimals = 0, Direction = swapDirection,
          StartTxHash = swapStartTxHash, FillTxHash = [], Log = log, RecordHash = []\<rparr>)"

text \<open>
  The body of the ingestor's loop for one log row; \<open>now\<close> is \<^verbatim>\<open>time.Now().Unix()\<close>.
\<close>

definition monitorStep :: "Engine \<Rightarrow> TxFault \<Rightarrow> int \<Rightarrow> SwapStartTxLog \<Rightarrow> DB \<Rightarrow> DB" where
  "monitorStep engine fault now swapEventLog db =
     (let swap = createSwap swapEventLog in
      if fault = BeginFails then db
      else (case insertSwap engine db swap of
              Inl err \<Rightarrow> db
            | Inr (swap', tx) \<Rightarrow>
                (let tx' = tx\<lparr>swapStartTxLogs :=
                             map (\<lambda>l. if TxHash l = StartTxHash swap'
                                       then l\<lparr>Phase := ConfirmRequest, UpdateTime := now\<rparr>
                                       else l)
                               (swapStartTxLogs tx)\<rparr>
                 in if fault = CommitFails then db else tx')))"

definition monitorSelect :: "Engine \<Rightarrow> DB \<Rightarrow> SwapStartTxLog list" where
  "monitorSelect engine db =
     take (BatchSize engine)
       (sort_key LogHeight (filter (\<lambda>l. Phase l = SeenRequest) (swapStartTxLogs db)))"

section \<open>Confirmer\<close>

definition confirmSelect :: "Engine \<Rightarrow> DB \<Rightarrow> SwapStartTxLog list" where
  "confirmSelect engine db =
     take (BatchSize engine)
       (sort_key LogHeight
          (filter (\<lambda>l. LogStatus l = TxStatusConfirmed \<and> Phase l = ConfirmRequest)
             (swapStartTxLogs db)))"

definition confirmStep :: "Engine \<Rightarrow> TxFault \<Rightarrow> int \<Rightarrow> SwapStartTxLog \<Rightarrow> DB \<Rightarrow> DB" where
  "confirmStep engine fault now txEventLog db =
     (if fault = BeginFails then db
      else (case getSwapByStartTxHash engine db (TxHash txEventLog) of
              Inl err \<Rightarrow> db
            | Inr swap \<Rightarrow>
                (let tx = (if Status swap = SwapTokenReceived
                           then snd (updateSwap engine db (swap\<lparr>Status := SwapConfirmed\<rparr>))
                           else db);
                     tx' = tx\<lparr>swapStartTxLogs :=
                             map (\<lambda>l. if LogId l = LogId txEventLog
                                       then l\<lparr>Phase := AckRequest, UpdateTime := now\<rparr>
                                       else l)
                               (swapStartTxLogs tx)\<rparr>
                 in if fault = CommitFails then db else tx')))"

section \<open>Filler\<close>

text \<open>
  The three chain clients. What a client, the ABI encoder and the transaction builder
  answer while one fill is attempted is the environment's: \<open>encodeErr\<close> is the error
  of \<^verbatim>\<open>abiEncodeFillSwap\<close>, \<open>signedTx\<close> the error of \<^verbatim>\<open>buildSignedTransaction\<close>
  or the hash and gas price of the signed transaction, \<open>insertErr\<close> the error of
  \<^verbatim>\<open>insertSwapTxToDB\<close>'s transaction, \<open>sendErr\<close> the error of
  \<^verbatim>\<open>SendTransaction\<close>.
\<close>

datatype Client = BscClient | EthClient | MaticClient

record FillReply =
  encodeErr :: "string option"
  signedTx :: "string + (string \<times> string)"
  insertErr :: "string option"
  sendErr :: "string option"

record FillEnv =
  rejectFault :: TxFault
  claimFault :: TxFault
  fillReply :: "Client \<Rightarrow> FillReply"
  finishFault :: TxFault
  fillNow :: int

text \<open>The text of go-ethereum's \<^verbatim>\<open>core.ErrReplaceUnderpriced\<close>.\<close>

definition ErrReplaceUnderpriced :: string where
  "ErrReplaceUnderpriced = ''replacement transaction underpriced''"

definition fillerSelect :: "Engine \<Rightarrow> SwapDirection \<Rightarrow> SwapDirection \<Rightarrow> DB \<Rightarrow> Swap list" where
  "fillerSelect engine direction1 direction2 db =
     take (BatchSize engine)
       (sort_key ID
          (filter (\<lambda>s. (Status s = SwapConfirmed \<or> Status s = SwapSending)
                        \<and> (Direction s = direction1 \<or> Direction s = direction2))
             (swaps db)))"

text \<open>The transaction of the filler for a swap that fails MAC verification.\<close>

definition rejectSwap :: "Engine \<Rightarrow> TxFault \<Rightarrow> Swap \<Rightarrow> DB \<Rightarrow> DB" where
  "rejectSwap engine fault swap db =
     (if fault = BeginFails then db
      else (let (swap', tx) =
                  updateSwap engine db
                    (swap\<lparr>Status := SwapQuoteRejected,
                          Log := ''verify hmac of swap failed: '' @ StartTxHash swap\<rparr>)
            in if fault = CommitFails then db else tx))"

text \<open>
  The claim transaction: the result is the error of the transaction, or the skip flag,
  the swap as the loop variable holds it afterwards, and the store.
\<close>

definition claimSwap ::
  "Engine \<Rightarrow> TxFault \<Rightarrow> int \<Rightarrow> Swap \<Rightarrow> DB \<Rightarrow> string + (bool \<times> Swap \<times> DB)" where
  "claimSwap engine fault now swap db =
     (if fault = BeginFails then Inl ''begin transaction failed''
      else
        (let (isSkip, swap', tx) =
           (if Status swap = SwapSending then
              (let fillSwapTxHash =
                     (case find (\<lambda>t. StartSwapTxHash t = StartTxHash swap)
                             (sort_key FillID (swapFillTxs db)) of
                        None \<Rightarrow> []
                      | Some swapTx \<Rightarrow> FillSwapTxHash swapTx)
               in if fillSwapTxHash = [] then
                    (let (s, tx) = updateSwap engine db (swap\<lparr>Status := SwapConfirmed\<rparr>)
                     in (False, s, tx))
                  else
                    (let tx1 = db\<lparr>swapFillTxs :=
                                   map (\<lambda>t. if FillSwapTxHash t = fillSwapTxHash
                                             then t\<lparr>FillStatus := FillTxSent, UpdatedAt := now\<rparr>
                                             else t)
                                     (swapFillTxs db)\<rparr>;
                         (s, tx2) = updateSwap engine tx1
                                      (swap\<lparr>Status := SwapSent, FillTxHash := fillSwapTxHash\<rparr>)
                     in (True, s, tx2)))
            else
              (let (s, tx) = updateSwap engine db (swap\<lparr>Status := SwapSending\<rparr>)
               in (False, s, tx)))
         in if fault = CommitFails then Inl ''commit failed'' else Inr (isSkip, swap', tx)))"

definition insertSwapTxToDB :: "string option \<Rightarrow> SwapFillTx \<Rightarrow> DB \<Rightarrow> string + (SwapFillTx \<times> DB)" where
  "insertSwapTxToDB fault data db =
     (case fault of
        Some err \<Rightarrow> Inl err
      | None \<Rightarrow>
          (let row = data\<lparr>FillID := nextFillID db\<rparr>
           in Inr (row, db\<lparr>swapFillTxs := swapFillTxs db @ [row],
                           nextFillID := Suc (nextFillID db)\<rparr>)))"

text \<open>
  One of the three branches of \<open>doSwap\<close>; they differ in the client, key, agent
  address and mutex only. The result is the pair \<open>(swapTx, err)\<close> the Go function returns
  (\<open>None\<close> is \<^verbatim>\<open>nil\<close>) and the store.
\<close>

definition doSwapVia :: "FillReply \<Rightarrow> Swap \<Rightarrow> DB \<Rightarrow> SwapFillTx option \<times> string option \<times> DB" where
  "doSwapVia r swap db =
     (case encodeErr r of
        Some err \<Rightarrow> (None, Some err, db)
      | None \<Rightarrow>
          (case signedTx r of
             Inl err \<Rightarrow> (None, Some err, db)
           | Inr (hash, gasPrice) \<Rightarrow>
               (let swapTx = \<lparr>FillID = 0, FillDirection = Direction swap,
                              StartSwapTxHash = StartTxHash swap, FillSwapTxHash = hash,
                              GasPrice = gasPrice, Height = 0, ConsumedFeeAmount = [],
                              FillStatus = FillTxCreated, TrackRetryCounter = 0, UpdatedAt = 0\<rparr>
                in (case insertSwapTxToDB (insertErr r) swapTx db of
                      Inl err \<Rightarrow> (None, Some err, db)
                    | Inr (swapTx', db') \<Rightarrow>
                        (case sendErr r of
                           Some err \<Rightarrow> (None, Some err, db')
                         | None \<Rightarrow> (Some swapTx', None, db'))))))"

definition doSwap ::
  "(Client \<Rightarrow> FillReply) \<Rightarrow> Swap \<Rightarrow> DB \<Rightarrow> SwapFillTx option \<times> string option \<times> DB" where
  "doSwap env swap db =
     (let ok = SetString10 (Amount swap);
          okk = SetString10 (ToChainId swap)
      in if ok = None then (None, Some (''invalid swap amount: '' @ Amount swap), db)
         else if okk = None then (None, Some (''invalid chainId: '' @ ToChainId swap), db)
         else if Direction swap = SwapEth2BSC \<or> Direction swap = SwapMATIC2BSC
           then doSwapVia (env BscClient) swap db
         else if Direction swap = SwapBSC2Eth \<or> Direction swap = SwapMATIC2Eth
           then doSwapVia (env EthClient) swap db
         else doSwapVia (env MaticClient) swap db)"

text \<open>
  The transaction that records the outcome of \<open>doSwap\<close>. Reading
  \<^verbatim>\<open>swapTx.FillSwapTxHash\<close> of a \<^verbatim>\<open>nil\<close> \<open>swapTx\<close> panics; the transaction is
  then never committed.
\<close>

definition finishSwap ::
  "Engine \<Rightarrow> TxFault \<Rightarrow> int \<Rightarrow> Swap \<Rightarrow> SwapFillTx option \<Rightarrow> string option \<Rightarrow> DB \<Rightarrow> DB Run" where
  "finishSwap engine fault now swap swapTx swapErr db =
     (if fault = BeginFails then Returns db
      else
        (case swapErr of
           Some err \<Rightarrow>
             if err = ErrReplaceUnderpriced then
               (case swapTx of
                  None \<Rightarrow> Panics db
                | Some t \<Rightarrow>
                    (let tx1 = db\<lparr>swapFillTxs :=
                                   filter (\<lambda>r. FillSwapTxHash r \<noteq> FillSwapTxHash t)
                                     (swapFillTxs db)\<rparr>;
                         (s, tx2) = updateSwap engine tx1
                                      (swap\<lparr>Status := SwapConfirmed,
                                            Log := ''do swap failure: '' @ err\<rparr>)
                     in Returns (if fault = CommitFails then db else tx2)))
             else
               (let (fillTxHash, tx1) =
                      (case swapTx of
                         None \<Rightarrow> ([], db)
                       | Some t \<Rightarrow>
                           (FillSwapTxHash t,
                            db\<lparr>swapFillTxs :=
                                 map (\<lambda>r. if FillSwapTxHash r = FillSwapTxHash t
                                           then r\<lparr>FillStatus := FillTxFailed, UpdatedAt := now\<rparr>
                                           else r)
                                   (swapFillTxs db)\<rparr>));
                    (s, tx2) = updateSwap engine tx1
                                 (swap\<lparr>Status := SwapSendFailed, FillTxHash := fillTxHash,
                                       Log := ''do swap failure: '' @ err\<rparr>)
                in Returns (if fault = CommitFails then db else tx2))
         | None \<Rightarrow>
             (case swapTx of
                None \<Rightarrow> Panics db
              | Some t \<Rightarrow>
                  (let tx1 = db\<lparr>swapFillTxs :=
                                 map (\<lambda>r. if FillSwapTxHash r = FillSwapTxHash t
                                           then r\<lparr>FillStatus := FillTxSent, UpdatedAt := now\<rparr>
                                           else r)
                                   (swapFillTxs db)\<rparr>;
                       (s, tx2) = updateSwap engine tx1
                                    (swap\<lparr>Status := SwapSent, FillTxHash := FillSwapTxHash t\<rparr>)
                   in Returns (if fault = CommitFails then db else tx2)))))"

text \<open>The body of the filler's loop for one selected swap.\<close>

definition fillerStep :: "Engine \<Rightarrow> FillEnv \<Rightarrow> Swap \<Rightarrow> DB \<Rightarrow> DB Run" where
  "fillerStep engine env swap db =
     (if \<not> verifySwap engine swap then Returns (rejectSwap engine (rejectFault env) swap db)
      else
        (case claimSwap engine (claimFault env) (fillNow env) swap db of
           Inl err \<Rightarrow> Returns db
         | Inr (skip, swap', db1) \<Rightarrow>
             if skip then Returns db1
             else
               (let (swapTx, swapErr, db2) = doSwap (fillReply env) swap' db1
                in finishSwap engine (finishFault env) (fillNow env) swap' swapTx swapErr db2)))"

fun fillerLoop :: "Engine \<Rightarrow> (Swap \<Rightarrow> FillEnv) \<Rightarrow> Swap list \<Rightarrow> DB \<Rightarrow> DB Run" where
  "fillerLoop engine env [] db = Returns db"
| "fillerLoop engine env (swap # rest) db =
     (case fillerStep engine (env swap) swap db of
        Panics db' \<Rightarrow> Panics db'
      | Returns db' \<Rightarrow> fillerLoop engine env rest db')"

text \<open>One pass of \<open>swapInstanceDaemon\<close>: the select and the loop over its rows.\<close>

definition swapInstancePass ::
  "Engine \<Rightarrow> (Swap \<Rightarrow> FillEnv) \<Rightarrow> SwapDirection \<Rightarrow> SwapDirection \<Rightarrow> DB \<Rightarrow> DB Run" where
  "swapInstancePass engine env direction1 direction2 db =
     fillerLoop engine env (fillerSelect engine direction1 direction2 db) db"

section \<open>Finalizer\<close>

text \<open>
  The finalizer's selects are \<^verbatim>\<open>Where(text, args...)\<close> calls whose text has one
  \<^verbatim>\<open>?\<close> per condition. The arguments are bound to the placeholders by position.
  A statement with fewer arguments than placeholders is refused by every driver:
  \<^verbatim>\<open>Find\<close> then leaves the destination slice as it was made, empty, and the daemon
  does not read the error. What happens to a statement with more arguments than
  placeholders is the driver's (\<open>sqlDriver\<close>): it is refused as well, or the first
  arguments are bound and the surplus is dropped. What a condition bound to an argument
  of another kind (a counter compared with a direction's text) evaluates to is the
  database's too (\<open>crossKindHolds\<close>).
\<close>

fun fillCondHolds :: "Engine \<Rightarrow> FillCond \<Rightarrow> SqlArg \<Rightarrow> SwapFillTx \<Rightarrow> bool" where
  "fillCondHolds engine StatusEq (ArgFillStatus s) t = (FillStatus t = s)"
| "fillCondHolds engine DirectionEq (ArgDirection d) t = (FillDirection t = d)"
| "fillCondHolds engine TrackRetryLt (ArgInt n) t = (TrackRetryCounter t < n)"
| "fillCondHolds engine TrackRetryGe (ArgInt n) t = (n \<le> TrackRetryCounter t)"
| "fillCondHolds engine c a t = crossKindHolds engine c a t"

definition findFillTxWhere ::
  "Engine \<Rightarrow> FillCond list \<Rightarrow> SqlArg list \<Rightarrow> nat \<Rightarrow> DB \<Rightarrow> SwapFillTx list" where
  "findFillTxWhere engine conds args limit db =
     (if length args < length conds then []
      else if length conds < length args \<and> sqlDriver engine = RefusesSurplus then []
      else take limit
             (sort_key FillID
                (filter (\<lambda>t. list_all2 (\<lambda>c a. fillCondHolds engine c a t) conds
                                 (take (length conds) args))
                   (swapFillTxs db))))"

subsection \<open>Missing-tx reaper\<close>

definition reaperSelect :: "Engine \<Rightarrow> DB \<Rightarrow> SwapFillTx list" where
  "reaperSelect engine db =
     findFillTxWhere engine [StatusEq, TrackRetryGe]
       [ArgFillStatus FillTxSent, ArgInt (ETHMaxTrackRetry engine)]
       (TrackSentTxBatchSize engine) db"

definition reapStep :: "Engine \<Rightarrow> TxFault \<Rightarrow> int \<Rightarrow> SwapFillTx \<Rightarrow> DB \<Rightarrow> DB" where
  "reapStep engine fault now swapTx db =
     (let maxRetry0 = ETHMaxTrackRetry engine;
          maxRetry1 = (if FillDirection swapTx = SwapEth2BSC \<or> FillDirection swapTx = SwapMATIC2BSC
                       then BSCMaxTrackRetry engine else maxRetry0);
          maxRetry = (if FillDirection swapTx = SwapBSC2MATIC \<or> FillDirection swapTx = SwapEth2MATIC
                      then MATICMaxTrackRetry engine else maxRetry1)
      in if fault = BeginFails then db
         else
           (let tx1 = db\<lparr>swapFillTxs :=
                          map (\<lambda>t. if FillID t = FillID swapTx
                                    then t\<lparr>FillStatus := FillTxMissing, UpdatedAt := now\<rparr>
                                    else t)
                            (swapFillTxs db)\<rparr>
            in (case getSwapByStartTxHash engine tx1 (StartSwapTxHash swapTx) of
                  Inl err \<Rightarrow> db
                | Inr swap \<Rightarrow>
                    (let (s, tx2) =
                           updateSwap engine tx1
                             (swap\<lparr>Status := SwapSendFailed,
                                   Log := ''track fill tx for more than '' @ showInt maxRetry
                                          @ '' times, the fill tx status is still uncertain''\<rparr>)
                     in if fault = CommitFails then db else tx2))))"

text \<open>One pass of the reaper: the select and the loop over its rows.\<close>

definition reaperPass :: "Engine \<Rightarrow> (SwapFillTx \<Rightarrow> TxFault \<times> int) \<Rightarrow> DB \<Rightarrow> DB" where
  "reaperPass engine env db =
     foldl (\<lambda>d swapTx. reapStep engine (fst (env swapTx)) (snd (env swapTx)) swapTx d)
       db (reaperSelect engine db)"

subsection \<open>Receipt poller\<close>

definition pollerSelect :: "Engine \<Rightarrow> DB \<Rightarrow> SwapFillTx list" where
  "pollerSelect engine db =
     (let ethSwapTxs =
            findFillTxWhere engine [StatusEq, DirectionEq, TrackRetryLt]
              [ArgFillStatus FillTxSent, ArgDirection SwapBSC2Eth, ArgDirection SwapMATIC2Eth,
               ArgInt (ETHMaxTrackRetry engine)]
              (TrackSentTxBatchSize engine) db;
          bscSwapTxs =
            findFillTxWhere engine [StatusEq, DirectionEq, TrackRetryLt]
              [ArgFillStatus FillTxSent, ArgDirection SwapEth2BSC, ArgDirection SwapMATIC2BSC,
               ArgInt (BSCMaxTrackRetry engine)]
              (TrackSentTxBatchSize engine) db;
          maticSwapTxs =
            findFillTxWhere engine [StatusEq, DirectionEq, TrackRetryLt]
              [ArgFillStatus FillTxSent, ArgDirection SwapEth2MATIC, ArgDirection SwapBSC2MATIC,
               ArgInt (MATICMaxTrackRetry engine)]
              (TrackSentTxBatchSize engine) db
      in (ethSwapTxs @ bscSwapTxs) @ maticSwapTxs)"

text \<open>
  What the chain answers while one fill transaction is tracked: the number of the latest
  block or the error of \<^verbatim>\<open>BlockByNumber\<close>, and the receipt or the error of
  \<^verbatim>\<open>TransactionReceipt\<close>.
\<close>

record Receipt =
  BlockNumber :: int
  GasUsed :: "64 word"
  ReceiptStatus :: "64 word"

record TrackReply =
  blockByNumber :: "string + int"
  transactionReceipt :: "string + Receipt"

record TrackEnv =
  trackReply :: "Client \<Rightarrow> TrackReply"
  trackFault :: TxFault
  trackNow :: int

definition trackClient :: "SwapFillTx \<Rightarrow> string \<times> Client" where
  "trackClient swapTx =
     (let c0 = (''ETH'', EthClient);
          c1 = (if FillDirection swapTx = SwapEth2BSC \<or> FillDirection swapTx = SwapMATIC2BSC
                then (''BSC'', BscClient) else c0)
      in (if FillDirection swapTx = SwapBSC2MATIC \<or> FillDirection swapTx = SwapEth2MATIC
          then (''MATIC'', MaticClient) else c1))"

definition queryTxStatus :: "Engine \<Rightarrow> string \<Rightarrow> TrackReply \<Rightarrow> string + Receipt" where
  "queryTxStatus engine chainName r =
     (case blockByNumber r of
        Inl err \<Rightarrow> Inl err
      | Inr blockNumber \<Rightarrow>
          (case transactionReceipt r of
             Inl err \<Rightarrow> Inl err
           | Inr txRecipient \<Rightarrow>
               if int64 blockNumber
                    < int64 (int64 (BlockNumber txRecipient) + int64 (ETHConfirmNum engine))
               then Inl (chainName @ '', swap tx is still not finalized'')
               else Inr txRecipient))"

text \<open>The body of the poller's loop for one tracked fill transaction.\<close>

definition trackStep :: "Engine \<Rightarrow> TrackEnv \<Rightarrow> SwapFillTx \<Rightarrow> DB \<Rightarrow> DB" where
  "trackStep engine env swapTx db =
     (let gasPrice = (case SetString10 (GasPrice swapTx) of
                        Some v \<Rightarrow> v
                      | None \<Rightarrow> failedSetString engine (GasPrice swapTx));
          (chainName, client) = trackClient swapTx;
          queryTxStatusErr = queryTxStatus engine chainName (trackReply env client);
          fault = trackFault env;
          now = trackNow env
      in if fault = BeginFails then db
         else
           (case queryTxStatusErr of
              Inl err \<Rightarrow>
                (let tx1 = db\<lparr>swapFillTxs :=
                               map (\<lambda>t. if FillID t = FillID swapTx
                                         then t\<lparr>TrackRetryCounter := TrackRetryCounter t + 1,
                                                UpdatedAt := now\<rparr>
                                         else t)
                                 (swapFillTxs db)\<rparr>
                 in if fault = CommitFails then db else tx1)
            | Inr txRecipient \<Rightarrow>
                (let txFee = showInt (gasPrice * sint (GasUsed txRecipient))
                 in if ReceiptStatus txRecipient = TxFailedStatus engine then
                      (let tx1 = db\<lparr>swapFillTxs :=
                                     map (\<lambda>t. if FillID t = FillID swapTx
                                               then t\<lparr>FillStatus := FillTxFailed,
                                                      Height := int64 (BlockNumber txRecipient),
                                                      ConsumedFeeAmount := txFee,
                                                      UpdatedAt := now\<rparr>
                                               else t)
                                       (swapFillTxs db)\<rparr>
                       in (case getSwapByStartTxHash engine tx1 (StartSwapTxHash swapTx) of
                             Inl err \<Rightarrow> db
                           | Inr swap \<Rightarrow>
                               (let (s, tx2) =
                                      updateSwap engine tx1
                                        (swap\<lparr>Status := SwapSendFailed,
                                              Log := ''fill tx is failed''\<rparr>)
                                in if fault = CommitFails then db else tx2)))
                    else
                      (let tx1 = db\<lparr>swapFillTxs :=
                                     map (\<lambda>t. if FillID t = FillID swapTx
                                               then t\<lparr>FillStatus := FillTxSuccess,
                                                      Height := int64 (BlockNumber txRecipient),
                                                      ConsumedFeeAmount := txFee,
                                                      UpdatedAt := now\<rparr>
                                               else t)
                                       (swapFillTxs db)\<rparr>
                       in (case getSwapByStartTxHash engine tx1 (StartSwapTxHash swapTx) of
                             Inl err \<Rightarrow> db
                           | Inr swap \<Rightarrow>
                               (let (s, tx2) =
                                      updateSwap engine tx1 (swap\<lparr>Status := SwapSuccess\<rparr>)
                                in if fault = CommitFails then db else tx2))))))"

definition pollerPass :: "Engine \<Rightarrow> (SwapFillTx \<Rightarrow> TrackEnv) \<Rightarrow> DB \<Rightarrow> DB" where
  "pollerPass engine env db =
     foldl (\<lambda>d swapTx. trackStep engine (env swapTx) swapTx d) db (pollerSelect engine db)"

section \<open>Pair registry\<close>

text \<open>
  go-ethereum's \<^verbatim>\<open>common.HexToAddress\<close>: an optional \<^verbatim>\<open>0x\<close> is dropped, an odd number
  of digits is padded with a leading \<^verbatim>\<open>0\<close>, the digits are decoded up to the first
  byte that is no hex digit, and the bytes are right-aligned in twenty (the leftmost are
  cut when there are more).
\<close>

type_synonym Address = "8 word list"

definition hexDigit :: "char \<Rightarrow> nat option" where
  "hexDigit c =
     (let n = (of_char c :: nat)
      in if 48 \<le> n \<and> n \<le> 57 then Some (n - 48)
         else if 97 \<le> n \<and> n \<le> 102 then Some (n - 87)
         else if 65 \<le> n \<and> n \<le> 70 then Some (n - 55)
         else None)"

fun Hex2Bytes :: "string \<Rightarrow> 8 word list" where
  "Hex2Bytes (p # q # rest) =
     (case hexDigit p of
        None \<Rightarrow> []
      | Some a \<Rightarrow>
          (case hexDigit q of
             None \<Rightarrow> []
           | Some b \<Rightarrow> of_nat (16 * a + b) # Hex2Bytes rest))"
| "Hex2Bytes s = []"

definition FromHex :: "string \<Rightarrow> 8 word list" where
  "FromHex s =
     (let s1 = (if 2 \<le> length s \<and> s ! 0 = CHR ''0'' \<and> (s ! 1 = CHR ''x'' \<or> s ! 1 = CHR ''X'')
                then drop 2 s else s);
          s2 = (if length s1 mod 2 = 1 then CHR ''0'' # s1 else s1)
      in Hex2Bytes s2)"

definition BytesToAddress :: "8 word list \<Rightarrow> Address" where
  "BytesToAddress b =
     (let b' = (if 20 < length b then drop (length b - 20) b else b)
      in replicate (20 - length b') 0 @ b')"

definition HexToAddress :: "string \<Rightarrow> Address" where
  "HexToAddress s = BytesToAddress (FromHex s)"

record SwapPair =
  PairSymbol :: string
  PairName :: string
  PairDecimals :: int
  PairLowBound :: string
  PairUpperBound :: string
  PairBEP20Addr :: string
  PairERC20Addr :: string
  Available :: bool

record SwapPairIns =
  InsSymbol :: string
  InsName :: string
  InsDecimals :: int
  LowBound :: int
  UpperBound :: int
  InsBEP20Addr :: Address
  InsERC20Addr :: Address

text \<open>
  The registry part of the engine. Its map holds pointers; every entry is given a fresh
  instance by \<open>AddSwapPairInstance\<close> and no entry is stored under two keys, so the map
  holds the instances themselves here.
\<close>

record Registry =
  swapPairsFromERC20Addr :: "Address \<rightharpoonup> SwapPairIns"
  bep20ToERC20 :: "Address \<rightharpoonup> Address"
  erc20ToBEP20 :: "Address \<rightharpoonup> Address"

definition AddSwapPairInstance :: "Registry \<Rightarrow> SwapPair \<Rightarrow> string + Registry" where
  "AddSwapPairInstance reg swapPair =
     (case SetString10 (PairLowBound swapPair) of
        None \<Rightarrow> Inl (''invalid lowBound amount: '' @ PairLowBound swapPair)
      | Some lowBound \<Rightarrow>
          (case SetString10 (PairUpperBound swapPair) of
             None \<Rightarrow> Inl (''invalid upperBound amount: '' @ PairLowBound swapPair)
           | Some upperBound \<Rightarrow>
               Inr (reg\<lparr>swapPairsFromERC20Addr :=
                          (swapPairsFromERC20Addr reg)
                            (HexToAddress (PairERC20Addr swapPair) \<mapsto>
                               \<lparr>InsSymbol = PairSymbol swapPair, InsName = PairName swapPair,
                                InsDecimals = PairDecimals swapPair, LowBound = lowBound,
                                UpperBound = upperBound,
                                InsBEP20Addr = HexToAddress (PairBEP20Addr swapPair),
                                InsERC20Addr = HexToAddress (PairERC20Addr swapPair)\<rparr>),
                        bep20ToERC20 :=
                          (bep20ToERC20 reg)
                            (HexToAddress (PairBEP20Addr swapPair) \<mapsto>
                               HexToAddress (PairERC20Addr swapPair)),
                        erc20ToBEP20 :=
                          (erc20ToBEP20 reg)
                            (HexToAddress (PairERC20Addr swapPair) \<mapsto>
                               HexToAddress (PairBEP20Addr swapPair))\<rparr>)))"

definition GetSwapPairInstance :: "Registry \<Rightarrow> Address \<Rightarrow> string + SwapPairIns" where
  "GetSwapPairInstance reg erc20Addr =
     (case swapPairsFromERC20Addr reg erc20Addr of
        None \<Rightarrow> Inl ''swap instance doesn't exist''
      | Some tokenInstance \<Rightarrow> Inr tokenInstance)"

text \<open>
  In \<open>UpdateSwapInstance\<close> the big integer \<^verbatim>\<open>upperBound\<close> is stored in the instance
  and then receives the second \<^verbatim>\<open>SetString\<close> as well, so the instance's upper bound
  ends as the value of the pair's lower bound text; \<^verbatim>\<open>lowBound\<close> stays zero.
\<close>

definition UpdateSwapInstance :: "Engine \<Rightarrow> Registry \<Rightarrow> SwapPair \<Rightarrow> Registry" where
  "UpdateSwapInstance engine reg swapPair =
     (let bscTokenAddr = HexToAddress (PairBEP20Addr swapPair)
      in (case swapPairsFromERC20Addr reg bscTokenAddr of
            None \<Rightarrow> reg
          | Some tokenInstance \<Rightarrow>
              if \<not> Available swapPair then
                reg\<lparr>swapPairsFromERC20Addr := (swapPairsFromERC20Addr reg)(bscTokenAddr := None)\<rparr>
              else
                (let upperBound0 = (case SetString10 (PairUpperBound swapPair) of
                                      Some v \<Rightarrow> v
                                    | None \<Rightarrow> failedSetString engine (PairUpperBound swapPair));
                     lowBound = 0;
                     upperBound = (case SetString10 (PairLowBound swapPair) of
                                     Some v \<Rightarrow> v
                                   | None \<Rightarrow> failedSetString engine (PairLowBound swapPair));
                     tokenInstance' = tokenInstance\<lparr>UpperBound := upperBound, LowBound := lowBound\<rparr>
                 in reg\<lparr>swapPairsFromERC20Addr :=
                          (swapPairsFromERC20Addr reg)(bscTokenAddr \<mapsto> tokenInstance')\<rparr>)))"

section \<open>The engine as a whole\<close>

text \<open>
  One operation of the engine on the store is one pass of one of its daemons; what the
  database, the clock and the chains do during the pass is carried by the operation. A
  pass that panics ends the process, and the store is what had been committed.
\<close>

datatype Op =
  MonitorPass "SwapStartTxLog \<Rightarrow> TxFault \<times> int"
  | ConfirmPass "SwapStartTxLog \<Rightarrow> TxFault \<times> int"
  | SwapInstancePass "Swap \<Rightarrow> FillEnv" SwapDirection SwapDirection
  | ReaperPass "SwapFillTx \<Rightarrow> TxFault \<times> int"
  | PollerPass "SwapFillTx \<Rightarrow> TrackEnv"

definition monitorPass :: "Engine \<Rightarrow> (SwapStartTxLog \<Rightarrow> TxFault \<times> int) \<Rightarrow> DB \<Rightarrow> DB" where
  "monitorPass engine env db =
     foldl (\<lambda>d l. monitorStep engine (fst (env l)) (snd (env l)) l d) db (monitorSelect engine db)"

definition confirmPass :: "Engine \<Rightarrow> (SwapStartTxLog \<Rightarrow> TxFault \<times> int) \<Rightarrow> DB \<Rightarrow> DB" where
  "confirmPass engine env db =
     foldl (\<lambda>d l. confirmStep engine (fst (env l)) (snd (env l)) l d) db (confirmSelect engine db)"

fun applyOp :: "Engine \<Rightarrow> Op \<Rightarrow> DB \<Rightarrow> DB" where
  "applyOp engine (MonitorPass env) db = monitorPass engine env db"
| "applyOp engine (ConfirmPass env) db = confirmPass engine env db"
| "applyOp engine (SwapInstancePass env d1 d2) db = stateOf (swapInstancePass engine env d1 d2 db)"
| "applyOp engine (ReaperPass env) db = reaperPass engine env db"
| "applyOp engine (PollerPass env) db = pollerPass engine env db"

definition runEngine :: "Engine \<Rightarrow> Op list \<Rightarrow> DB \<Rightarrow> DB" where
  "runEngine engine ops db = foldl (\<lambda>d op. applyOp engine op d) db ops"

definition emptyDB :: DB where
  "emptyDB = \<lparr>swaps = [], swapFillTxs = [], swapStartTxLogs = [], nextSwapID = 1, nextFillID = 1\<rparr>"

section \<open>The specification's wording\<close>

text \<open>
  The canonical fields of a swap in the order the specification lists them, joined by
  the delimiter, and the MAC of a row as the specification defines it.
\<close>

fun joinFields :: "string \<Rightarrow> string list \<Rightarrow> string" where
  "joinFields sep [] = []"
| "joinFields sep [x] = x"
| "joinFields sep (x # y # ys) = x @ sep @ joinFields sep (y # ys)"

definition canonicalFields :: "Engine \<Rightarrow> Swap \<Rightarrow> string list" where
  "canonicalFields engine s =
     [statusText engine (Status s), Sponsor s, BEP20Addr s, ERC20Addr s, Symbol s, Amount s,
      showInt (Decimals s), directionText engine (Direction s), StartTxHash s, FillTxHash s]"

definition specMAC :: "Engine \<Rightarrow> Swap \<Rightarrow> string" where
  "specMAC engine s =
     hmacSHA256Hex engine (hmacCKey engine) (joinFields ''#'' (canonicalFields engine s))"

definition macAtRest :: "Engine \<Rightarrow> DB \<Rightarrow> bool" where
  "macAtRest engine db = list_all (\<lambda>s. RecordHash s = specMAC engine s) (swaps db)"

definition macInv :: "Engine \<Rightarrow> DB \<Rightarrow> bool" where
  "macInv engine db = list_all (verifySwap engine) (swaps db)"

text \<open>
  The routing table of the specification, over the three chains, and the chains the
  ingestor knows by a chain id (it names no id of Polygon).
\<close>

fun routingTable :: "Chain \<Rightarrow> Chain \<Rightarrow> SwapDirection option" where
  "routingTable ChainETH ChainBSC = Some SwapEth2BSC"
| "routingTable ChainETH ChainMATIC = Some SwapEth2MATIC"
| "routingTable ChainBSC ChainETH = Some SwapBSC2Eth"
| "routingTable ChainBSC ChainMATIC = Some SwapBSC2MATIC"
| "routingTable ChainMATIC ChainETH = Some SwapMATIC2Eth"
| "routingTable ChainMATIC ChainBSC = Some SwapMATIC2BSC"
| "routingTable src dst = None"

definition knownChainId :: "string \<Rightarrow> Chain option" where
  "knownChainId toChainId =
     (if toChainId = ''1'' \<or> toChainId = ''4'' then Some ChainETH
      else if toChainId = ''56'' \<or> toChainId = ''97'' then Some ChainBSC
      else None)"

text \<open>
  A decimal text: an optional sign and at least one digit. \<open>parsesNonNegative\<close> is the
  condition "parses as a non-negative base-10 big integer".
\<close>

definition decimalText :: "string \<Rightarrow> bool" where
  "decimalText s =
     (\<exists>sign digits. s = sign @ digits \<and> (sign = [] \<or> sign = ''+'' \<or> sign = ''-'')
        \<and> digits \<noteq> [] \<and> list_all isDigit digits)"

definition parsesNonNegative :: "string \<Rightarrow> bool" where
  "parsesNonNegative s = (case SetString10 s of None \<Rightarrow> False | Some v \<Rightarrow> 0 \<le> v)"

definition inInt64Range :: "int \<Rightarrow> bool" where
  "inInt64Range x = (- (2 ^ 63) \<le> x \<and> x < 2 ^ 63)"

text \<open>
  The receipt poller's select as the specification words it: per destination chain, the
  rows with status Sent, one of the two directions into the chain, and a retry counter
  below the chain's bound, ordered by id and limited by the batch size.
\<close>

definition specPollerSelectFor ::
  "Engine \<Rightarrow> SwapDirection \<Rightarrow> SwapDirection \<Rightarrow> int \<Rightarrow> DB \<Rightarrow> SwapFillTx list" where
  "specPollerSelectFor engine d1 d2 maxTrackRetry db =
     take (TrackSentTxBatchSize engine)
       (sort_key FillID
          (filter (\<lambda>t. FillStatus t = FillTxSent
                        \<and> (FillDirection t = d1 \<or> FillDirection t = d2)
                        \<and> TrackRetryCounter t < maxTrackRetry)
             (swapFillTxs db)))"

definition specPollerSelect :: "Engine \<Rightarrow> DB \<Rightarrow> SwapFillTx list" where
  "specPollerSelect engine db =
     (specPollerSelectFor engine SwapBSC2Eth SwapMATIC2Eth (ETHMaxTrackRetry engine) db
      @ specPollerSelectFor engine SwapEth2BSC SwapMATIC2BSC (BSCMaxTrackRetry engine) db)
     @ specPollerSelectFor engine SwapEth2MATIC SwapBSC2MATIC (MATICMaxTrackRetry engine) db"

text \<open>
  The reaper's select as the specification words it: the rows with status Sent whose
  retry counter has reached the bound of their destination chain.
\<close>

definition maxTrackRetryOf :: "Engine \<Rightarrow> SwapDirection \<Rightarrow> int" where
  "maxTrackRetryOf engine d =
     (if d = SwapBSC2MATIC \<or> d = SwapEth2MATIC then MATICMaxTrackRetry engine
      else if d = SwapEth2BSC \<or> d = SwapMATIC2BSC then BSCMaxTrackRetry engine
      else ETHMaxTrackRetry engine)"

definition specReaperSelect :: "Engine \<Rightarrow> DB \<Rightarrow> SwapFillTx list" where
  "specReaperSelect engine db =
     take (TrackSentTxBatchSize engine)
       (sort_key FillID
          (filter (\<lambda>t. FillStatus t = FillTxSent
                        \<and> maxTrackRetryOf engine (FillDirection t) \<le> TrackRetryCounter t)
             (swapFillTxs db)))"

section \<open>Worked inputs\<close>

text \<open>
  An engine, rows and replies for the worked examples. The digest function of the example
  engine is a stand-in: no example depends on what the digest of a text is, only on
  whether a stored hash is the digest of its row.
\<close>

definition exampleStatusText :: "SwapStatus \<Rightarrow> string" where
  "exampleStatusText st =
     (case st of
        SwapTokenReceived \<Rightarrow> ''received'' | SwapQuoteRejected \<Rightarrow> ''rejected''
      | SwapConfirmed \<Rightarrow> ''confirmed'' | SwapSending \<Rightarrow> ''sending'' | SwapSent \<Rightarrow> ''sent''
      | SwapSendFailed \<Rightarrow> ''sent_fail'' | SwapSuccess \<Rightarrow> ''sent_success'')"

definition exampleDirectionText :: "SwapDirection \<Rightarrow> string" where
  "exampleDirectionText d =
     (case d of
        SwapEth2BSC \<Rightarrow> ''eth_bsc'' | SwapBSC2Eth \<Rightarrow> ''bsc_eth''
      | SwapMATIC2BSC \<Rightarrow> ''matic_bsc'' | SwapMATIC2Eth \<Rightarrow> ''matic_eth''
      | SwapBSC2MATIC \<Rightarrow> ''bsc_matic'' | SwapEth2MATIC \<Rightarrow> ''eth_matic'')"

definition exampleEngine :: Engine where
  "exampleEngine =
     \<lparr>hmacCKey = ''key'', hmacSHA256Hex = (\<lambda>k m. k @ ''|'' @ m),
      statusText = exampleStatusText, directionText = exampleDirectionText,
      ETHMaxTrackRetry = 10, BSCMaxTrackRetry = 5, MATICMaxTrackRetry = 5,
      ETHConfirmNum = 12, BatchSize = 50, TrackSentTxBatchSize = 100,
      TxFailedStatus = 0, failedSetString = (\<lambda>s. 0),
      sqlDriver = RefusesSurplus, crossKindHolds = (\<lambda>c a t. False)\<rparr>"

definition exampleLog :: SwapStartTxLog where
  "exampleLog =
     \<lparr>LogId = 1, Chain = ChainBSC, TxHash = ''0xstart'', FromAddress = ''0xsponsor'',
      LogAmount = ''1000'', LogToChainId = ''1'', LogHeight = 7,
      LogStatus = TxStatusConfirmed, Phase = SeenRequest, UpdateTime = 0\<rparr>"

definition exampleSwapTo :: "SwapDirection \<Rightarrow> string \<Rightarrow> SwapStatus \<Rightarrow> Swap" where
  "exampleSwapTo d toChainId st =
     (let s = \<lparr>ID = 1, Status = st, Sponsor = ''0xsponsor'', ToChainId = toChainId,
               BEP20Addr = zeroAddressHex, ERC20Addr = zeroAddressHex, Symbol = [],
               Amount = ''1000'', Decimals = 0, Direction = d,
               StartTxHash = ''0xstart'', FillTxHash = [], Log = [], RecordHash = []\<rparr>
      in s\<lparr>RecordHash := getSwapHMAC exampleEngine s\<rparr>)"

definition exampleSwap :: "SwapStatus \<Rightarrow> Swap" where
  "exampleSwap st = exampleSwapTo SwapBSC2Eth ''1'' st"

definition exampleFillTo :: "SwapDirection \<Rightarrow> FillTxStatus \<Rightarrow> SwapFillTx" where
  "exampleFillTo d st =
     \<lparr>FillID = 1, FillDirection = d, StartSwapTxHash = ''0xstart'',
      FillSwapTxHash = ''0xfill'', GasPrice = ''5'', Height = 0, ConsumedFeeAmount = [],
      FillStatus = st, TrackRetryCounter = 0, UpdatedAt = 0\<rparr>"

definition exampleFill :: "FillTxStatus \<Rightarrow> SwapFillTx" where
  "exampleFill st = exampleFillTo SwapBSC2Eth st"

definition exampleDB :: "Swap list \<Rightarrow> SwapFillTx list \<Rightarrow> DB" where
  "exampleDB ss ts =
     \<lparr>swaps = ss, swapFillTxs = ts, swapStartTxLogs = [exampleLog],
      nextSwapID = Suc (length ss), nextFillID = Suc (length ts)\<rparr>"

definition exampleFillEnv :: "string option \<Rightarrow> FillEnv" where
  "exampleFillEnv broadcastErr =
     \<lparr>rejectFault = TxOk, claimFault = TxOk,
      fillReply = (\<lambda>c. \<lparr>encodeErr = None, signedTx = Inr (''0xfill'', ''5''),
                        insertErr = None, sendErr = broadcastErr\<rparr>),
      finishFault = TxOk, fillNow = 100\<rparr>"

definition exampleReceipt :: Receipt where
  "exampleReceipt = \<lparr>BlockNumber = 200, GasUsed = 21000, ReceiptStatus = 1\<rparr>"

definition exampleTrackEnv :: "int \<Rightarrow> TrackEnv" where
  "exampleTrackEnv latestBlock =
     \<lparr>trackReply = (\<lambda>c. \<lparr>blockByNumber = Inr latestBlock,
                          transactionReceipt = Inr exampleReceipt\<rparr>),
      trackFault = TxOk, trackNow = 100\<rparr>"

definition emptyRegistry :: Registry where
  "emptyRegistry =
     \<lparr>swapPairsFromERC20Addr = Map.empty, bep20ToERC20 = Map.empty, erc20ToBEP20 = Map.empty\<rparr>"

definition examplePair :: "string \<Rightarrow> string \<Rightarrow> SwapPair" where
  "examplePair bep20 erc20 =
     \<lparr>PairSymbol = ''TKN'', PairName = ''Token'', PairDecimals = 18, PairLowBound = ''1'',
      PairUpperBound = ''1000'', PairBEP20Addr = bep20, PairERC20Addr = erc20,
      Available = True\<rparr>"

definition addPair :: "Registry \<Rightarrow> SwapPair \<Rightarrow> Registry" where
  "addPair reg p = (case AddSwapPairInstance reg p of Inl err \<Rightarrow> reg | Inr reg' \<Rightarrow> reg')"

section \<open>Basic facts about the MAC and the store\<close>

lemma getSwapHMAC_RecordHash: "getSwapHMAC e (s\<lparr>RecordHash := h\<rparr>) = getSwapHMAC e s"
  by (simp add: getSwapHMAC_def)

lemma getSwapHMAC_Log: "getSwapHMAC e (s\<lparr>Log := l\<rparr>) = getSwapHMAC e s"
  by (simp add: getSwapHMAC_def)

lemma getSwapHMAC_ID: "getSwapHMAC e (s\<lparr>ID := i\<rparr>) = getSwapHMAC e s"
  by (simp add: getSwapHMAC_def)

lemma verifySwap_fresh: "verifySwap e (s\<lparr>RecordHash := getSwapHMAC e s\<rparr>)"
  by (simp add: verifySwap_def getSwapHMAC_RecordHash)

lemma verifySwap_ID: "verifySwap e (s\<lparr>ID := i\<rparr>) = verifySwap e s"
  by (simp add: verifySwap_def getSwapHMAC_ID)

lemma updateSwap_eq:
  "updateSwap e db s =
     (s\<lparr>RecordHash := getSwapHMAC e s\<rparr>, saveSwapRow db (s\<lparr>RecordHash := getSwapHMAC e s\<rparr>))"
  by (simp add: updateSwap_def Let_def)


section \<open>Evaluation of the worked inputs\<close>

lemmas example_defs =
  exampleEngine_def exampleStatusText_def exampleDirectionText_def exampleLog_def
  exampleSwapTo_def exampleSwap_def exampleFillTo_def exampleFill_def exampleDB_def exampleFillEnv_def exampleReceipt_def
  exampleTrackEnv_def zeroAddressHex_def

lemma SetString10_1000: "SetString10 ''1000'' = Some 1000"
  by (simp add: SetString10_def scanDigits_def isDigit_def digitVal_def)

lemma exampleSwap_verified: "verifySwap exampleEngine (exampleSwap st)"
  unfolding exampleSwap_def exampleSwapTo_def Let_def by (rule verifySwap_fresh)

lemma exampleSwap_fields:
  "Status (exampleSwap st) = st \<and> StartTxHash (exampleSwap st) = ''0xstart''
   \<and> ID (exampleSwap st) = 1 \<and> Amount (exampleSwap st) = ''1000''
   \<and> ToChainId (exampleSwap st) = ''1'' \<and> Direction (exampleSwap st) = SwapBSC2Eth
   \<and> FillTxHash (exampleSwap st) = [] \<and> Log (exampleSwap st) = []"
  by (simp add: exampleSwap_def exampleSwapTo_def Let_def)

section \<open>The MAC invariant\<close>

lemma macInv_fills: "macInv e (db\<lparr>swapFillTxs := x\<rparr>) = macInv e db"
  by (simp add: macInv_def)

lemma macInv_logs: "macInv e (db\<lparr>swapStartTxLogs := x\<rparr>) = macInv e db"
  by (simp add: macInv_def)

lemma macInv_saveSwapRow: "macInv e db \<Longrightarrow> verifySwap e s \<Longrightarrow> macInv e (saveSwapRow db s)"
  by (auto simp: macInv_def saveSwapRow_def list_all_iff)

lemma macInv_updateSwap: "macInv e db \<Longrightarrow> macInv e (snd (updateSwap e db s))"
  by (simp add: updateSwap_def Let_def macInv_saveSwapRow verifySwap_fresh)

lemma macInv_updateSwap': "macInv e db \<Longrightarrow> updateSwap e db s = (s', db') \<Longrightarrow> macInv e db'"
  using macInv_updateSwap[of e db s] by simp

lemma macInv_insertSwap: "macInv e db \<Longrightarrow> insertSwap e db s = Inr (s', db') \<Longrightarrow> macInv e db'"
  by (auto simp: insertSwap_def createSwapRow_def Let_def macInv_def verifySwap_ID verifySwap_fresh split: if_splits)

lemma macInv_monitorStep: "macInv e db \<Longrightarrow> macInv e (monitorStep e f n l db)"
  by (auto simp: monitorStep_def Let_def macInv_logs split: sum.splits dest: macInv_insertSwap)

lemma macInv_confirmStep: "macInv e db \<Longrightarrow> macInv e (confirmStep e f n l db)"
  by (auto simp: confirmStep_def Let_def macInv_logs macInv_updateSwap split: sum.splits)

lemma macInv_rejectSwap: "macInv e db \<Longrightarrow> macInv e (rejectSwap e f s db)"
  by (simp add: rejectSwap_def Let_def split_def macInv_updateSwap)

lemma macInv_claimSwap: "claimSwap e f n s db = Inr (k, s', db') \<Longrightarrow> macInv e db \<Longrightarrow> macInv e db'"
  by (auto simp: claimSwap_def Let_def macInv_fills split: if_splits prod.splits
        intro: macInv_updateSwap' [where db = "db\<lparr>swapFillTxs := x\<rparr>" for db x] macInv_updateSwap')

lemma macInv_doSwapVia: "macInv e db \<Longrightarrow> doSwapVia r s db = (t, err, db') \<Longrightarrow> macInv e db'"
  by (auto simp: doSwapVia_def insertSwapTxToDB_def Let_def macInv_def split: option.splits sum.splits prod.splits)

lemma macInv_doSwap: "macInv e db \<Longrightarrow> doSwap env s db = (t, err, db') \<Longrightarrow> macInv e db'"
  by (auto simp: doSwap_def Let_def split: if_splits dest: macInv_doSwapVia)

lemma macInv_finishSwap: "macInv e db \<Longrightarrow> macInv e (stateOf (finishSwap e f n s t err db))"
  by (simp add: finishSwap_def Let_def split_def macInv_updateSwap macInv_fills split: option.splits)

lemma macInv_fillerStep:
  assumes inv: "macInv e db"
  shows "macInv e (stateOf (fillerStep e env s db))"
proof (cases "verifySwap e s")
  case False
  with inv show ?thesis by (simp add: fillerStep_def macInv_rejectSwap)
next
  case True
  show ?thesis
  proof (cases "claimSwap e (claimFault env) (fillNow env) s db")
    case (Inl err)
    with True inv show ?thesis by (simp add: fillerStep_def)
  next
    case (Inr r)
    obtain skip s' db1 where r: "r = (skip, s', db1)" by (cases r) auto
    from Inr r inv have inv1: "macInv e db1" using macInv_claimSwap by blast
    obtain t err db2 where d: "doSwap (fillReply env) s' db1 = (t, err, db2)"
      by (cases "doSwap (fillReply env) s' db1") auto
    from inv1 d have inv2: "macInv e db2" by (rule macInv_doSwap)
    from True Inr r d inv1 inv2 show ?thesis
      by (simp add: fillerStep_def macInv_finishSwap)
  qed
qed

lemma macInv_fillerLoop: "macInv e db \<Longrightarrow> macInv e (stateOf (fillerLoop e env ss db))"
proof (induction ss arbitrary: db)
  case Nil
  then show ?case by simp
next
  case (Cons s ss)
  from Cons.prems have step: "macInv e (stateOf (fillerStep e (env s) s db))"
    by (rule macInv_fillerStep)
  show ?case
  proof (cases "fillerStep e (env s) s db")
    case (Returns d)
    with step Cons.IH[of d] show ?thesis by simp
  next
    case (Panics d)
    with step show ?thesis by simp
  qed
qed

lemma macInv_reapStep: "macInv e db \<Longrightarrow> macInv e (reapStep e f n t db)"
  by (simp add: reapStep_def Let_def split_def macInv_updateSwap macInv_fills split: sum.splits)

lemma macInv_trackStep: "macInv e db \<Longrightarrow> macInv e (trackStep e env t db)"
  by (simp add: trackStep_def Let_def split_def macInv_updateSwap macInv_fills split: sum.splits)

lemma macInv_foldl: "(\<And>d x. P d \<Longrightarrow> P (f d x)) \<Longrightarrow> P d \<Longrightarrow> P (foldl f d xs)"
  by (induction xs arbitrary: d) auto

lemma macInv_applyOp: "macInv e db \<Longrightarrow> macInv e (applyOp e op db)"
  by (cases op)
     (auto simp: monitorPass_def confirmPass_def swapInstancePass_def reaperPass_def pollerPass_def
        intro: macInv_foldl macInv_monitorStep macInv_confirmStep macInv_fillerLoop macInv_reapStep macInv_trackStep)

lemma macInv_runEngine: "macInv e db \<Longrightarrow> macInv e (runEngine e ops db)"
  unfolding runEngine_def by (rule macInv_foldl) (auto intro: macInv_applyOp)

lemma getSwapHMAC_specMAC: "getSwapHMAC e s = specMAC e s"
  by (simp add: getSwapHMAC_def specMAC_def canonicalFields_def)

lemma macAtRest_macInv: "macAtRest e db = macInv e db"
  by (simp add: macAtRest_def macInv_def verifySwap_def [abs_def] getSwapHMAC_specMAC)

lemma updateSwap_row:
  "updateSwap e db s = (row, db') \<Longrightarrow> row \<in> set (swaps db') \<and> RecordHash row = specMAC e row"
  by (auto simp: updateSwap_def Let_def saveSwapRow_def list_ex_iff
        getSwapHMAC_RecordHash getSwapHMAC_specMAC [symmetric])

lemma insertSwap_row:
  "insertSwap e db s = Inr (row, db') \<Longrightarrow> row \<in> set (swaps db') \<and> RecordHash row = specMAC e row"
  by (auto simp: insertSwap_def createSwapRow_def Let_def
        getSwapHMAC_RecordHash getSwapHMAC_ID getSwapHMAC_specMAC [symmetric] split: if_splits)

text \<open>
  Claim C1. The stored hash of a row is the digest, under the engine's key, of the row's
  status, sponsor, the two token addresses, symbol, amount, decimals, direction, start
  hash and fill hash, joined in that order by \<open>#\<close>. \<open>insertSwap\<close> and
  \<open>updateSwap\<close> store a row whose hash is that digest, and if every row at rest
  carries its digest then so does every row after any sequence of passes of the engine's
  daemons, whatever the database, the clock and the chains answer.
\<close>

theorem swap_record_hash_preserved:
  assumes "macAtRest engine db"
  shows "macAtRest engine (runEngine engine ops db)
    \<and> (case insertSwap engine db swap of
         Inl err \<Rightarrow> True
       | Inr (row, db') \<Rightarrow>
           row \<in> set (swaps db') \<and> RecordHash row = specMAC engine row \<and> macAtRest engine db')
    \<and> (case updateSwap engine db swap of
         (row, db') \<Rightarrow>
           row \<in> set (swaps db') \<and> RecordHash row = specMAC engine row \<and> macAtRest engine db')"
proof -
  from assms have inv: "macInv engine db" by (simp add: macAtRest_macInv)
  have run: "macAtRest engine (runEngine engine ops db)"
    using inv by (simp add: macAtRest_macInv macInv_runEngine)
  have ins: "case insertSwap engine db swap of
         Inl err \<Rightarrow> True
       | Inr (row, db') \<Rightarrow>
           row \<in> set (swaps db') \<and> RecordHash row = specMAC engine row \<and> macAtRest engine db'"
    using inv by (auto split: sum.splits simp: macAtRest_macInv dest: insertSwap_row macInv_insertSwap)
  have upd: "case updateSwap engine db swap of
         (row, db') \<Rightarrow>
           row \<in> set (swaps db') \<and> RecordHash row = specMAC engine row \<and> macAtRest engine db'"
    using inv by (auto split: prod.splits simp: macAtRest_macInv dest: updateSwap_row macInv_updateSwap')
  from run ins upd show ?thesis by blast
qed

text \<open>
  The store with one observed log and no swap satisfies the invariant; after an ingestor
  pass and a confirmer pass it holds one swap, Confirmed, and satisfies it still.
\<close>

theorem swap_record_hash_preserved_witness:
  "macAtRest exampleEngine (exampleDB [] [])
   \<and> macAtRest exampleEngine
       (runEngine exampleEngine
          [MonitorPass (\<lambda>l. (TxOk, 100)), ConfirmPass (\<lambda>l. (TxOk, 101))] (exampleDB [] []))
   \<and> map Status
       (swaps (runEngine exampleEngine
          [MonitorPass (\<lambda>l. (TxOk, 100)), ConfirmPass (\<lambda>l. (TxOk, 101))] (exampleDB [] [])))
     = [SwapConfirmed]"
proof -
  have h: "macAtRest exampleEngine (exampleDB [] [])"
    by (simp add: macAtRest_def exampleDB_def)
  have run: "map Status
       (swaps (runEngine exampleEngine
          [MonitorPass (\<lambda>l. (TxOk, 100)), ConfirmPass (\<lambda>l. (TxOk, 101))] (exampleDB [] [])))
     = [SwapConfirmed]"
    by (simp add: runEngine_def monitorPass_def monitorSelect_def monitorStep_def
          confirmPass_def confirmSelect_def confirmStep_def createSwap_def insertSwap_def
          createSwapRow_def getSwapByStartTxHash_def verifySwap_def getSwapHMAC_def
          updateSwap_def saveSwapRow_def SetString10_1000 Let_def example_defs)
  from swap_record_hash_preserved [OF h] h run show ?thesis by blast
qed

section \<open>Filler: a swap found Sending, and failed broadcasts\<close>








text \<open>
  Whenever \<open>doSwap\<close> returns an error it returns no fill row with it, also when the
  row has been inserted and only the broadcast failed.
\<close>

lemma doSwap_error_nil: "doSwap env swap db = (swapTx, Some err, db') \<Longrightarrow> swapTx = None"
  by (auto simp: doSwap_def doSwapVia_def insertSwapTxToDB_def Let_def
        split: if_splits option.splits sum.splits prod.splits)

text \<open>
  So the outcome transaction, after a \<open>doSwap\<close> that failed, never reaches a fill
  row: it panics on the underpriced error and saves the swap SendFailed, with an empty
  fill hash, on any other.
\<close>

lemma finishSwap_after_failed_doSwap:
  assumes "doSwap env swap db = (swapTx, Some err, db')"
  shows "finishSwap engine TxOk now swap swapTx (Some err) db' =
           (if err = ErrReplaceUnderpriced then Panics db'
            else Returns (saveSwapRow db'
                   (swap\<lparr>Status := SwapSendFailed, FillTxHash := [],
                         Log := ''do swap failure: '' @ err,
                         RecordHash := getSwapHMAC engine
                           (swap\<lparr>Status := SwapSendFailed, FillTxHash := []\<rparr>)\<rparr>)))"
  using doSwap_error_nil [OF assms]
  by (simp add: finishSwap_def updateSwap_eq getSwapHMAC_Log Let_def)

text \<open>
  Claim C3, at a failing input: a verified Confirmed swap whose fill transaction is built
  and inserted, and whose broadcast fails with \<open>replacement transaction underpriced\<close>.
  The claim has the fill row deleted, the swap reverted to Confirmed and the reason
  logged; the loop body panics instead, leaving the fill row Created, the swap Sending
  and its log empty.
\<close>

theorem replace_underpriced_panics:
  "(case fillerStep exampleEngine (exampleFillEnv (Some ErrReplaceUnderpriced))
           (exampleSwap SwapConfirmed) (exampleDB [exampleSwap SwapConfirmed] []) of
      Returns d \<Rightarrow> False
    | Panics d \<Rightarrow>
        map FillStatus (swapFillTxs d) = [FillTxCreated] \<and> map Status (swaps d) = [SwapSending]
        \<and> map Log (swaps d) = [[]])"
  by (simp add: fillerStep_def claimSwap_def doSwap_def doSwapVia_def insertSwapTxToDB_def
        finishSwap_def updateSwap_eq saveSwapRow_def exampleSwap_verified exampleSwap_fields
        exampleFillEnv_def exampleDB_def SetString10_def scanDigits_def isDigit_def digitVal_def
        Let_def)

text \<open>
  Claim C4, at a failing input: the same swap, the broadcast failing with
  \<open>insufficient funds\<close>. The claim has the fill row marked Failed; the fill row stays
  Created, and the swap is saved SendFailed with an empty fill hash and the reason in its
  log.
\<close>

theorem broadcast_failure_leaves_fill_created:
  "(case fillerStep exampleEngine (exampleFillEnv (Some ''insufficient funds''))
           (exampleSwap SwapConfirmed) (exampleDB [exampleSwap SwapConfirmed] []) of
      Panics d \<Rightarrow> False
    | Returns d \<Rightarrow>
        map FillStatus (swapFillTxs d) = [FillTxCreated] \<and> map Status (swaps d) = [SwapSendFailed]
        \<and> map FillTxHash (swaps d) = [[]]
        \<and> map Log (swaps d) = [''do swap failure: insufficient funds''])"
  by (simp add: fillerStep_def claimSwap_def doSwap_def doSwapVia_def insertSwapTxToDB_def
        finishSwap_def updateSwap_eq saveSwapRow_def exampleSwap_verified exampleSwap_fields
        exampleFillEnv_def exampleDB_def SetString10_def scanDigits_def isDigit_def digitVal_def
        ErrReplaceUnderpriced_def Let_def)

section \<open>Finalizer: the receipt poller and the reaper\<close>

lemma int64_id: "inInt64Range x \<Longrightarrow> int64 x = x"
  by (simp add: int64_def inInt64Range_def int_word_sint)

lemma sint_gas: "uint (w :: 64 word) < 2 ^ 63 \<Longrightarrow> sint w = uint w"
proof -
  assume a: "uint w < 2 ^ 63"
  have "sint w = sint (word_of_int (uint w) :: 64 word)" by simp
  also have "\<dots> = (uint w + 2 ^ 63) mod 2 ^ 64 - 2 ^ 63"
    by (simp only: int_word_sint) simp
  also from a have "\<dots> = uint w" by simp
  finally show ?thesis .
qed

lemma getSwapByStartTxHash_fills:
  "getSwapByStartTxHash e (db\<lparr>swapFillTxs := x\<rparr>) h = getSwapByStartTxHash e db h"
  by (simp add: getSwapByStartTxHash_def)

lemma queryTxStatus_unavailable:
  "blockByNumber r = Inl err \<or> transactionReceipt r = Inl err
     \<Longrightarrow> \<exists>err'. queryTxStatus engine chainName r = Inl err'"
  by (auto simp: queryTxStatus_def split: sum.splits)

lemma queryTxStatus_depth:
  assumes "blockByNumber r = Inr cur" "transactionReceipt r = Inr rcpt"
    and "inInt64Range cur" "inInt64Range (BlockNumber rcpt)" "inInt64Range (ETHConfirmNum engine)"
    and "inInt64Range (BlockNumber rcpt + ETHConfirmNum engine)"
  shows "queryTxStatus engine chainName r =
           (if cur < BlockNumber rcpt + ETHConfirmNum engine
            then Inl (chainName @ '', swap tx is still not finalized'') else Inr rcpt)"
  using assms by (simp add: queryTxStatus_def int64_id)

lemma trackStep_retry:
  assumes "trackFault env = TxOk"
    and "queryTxStatus engine (fst (trackClient swapTx)) (trackReply env (snd (trackClient swapTx))) = Inl err"
  shows "trackStep engine env swapTx db =
           db\<lparr>swapFillTxs :=
                map (\<lambda>t. if FillID t = FillID swapTx
                          then t\<lparr>TrackRetryCounter := TrackRetryCounter t + 1,
                                 UpdatedAt := trackNow env\<rparr>
                          else t)
                  (swapFillTxs db)\<rparr>"
  using assms by (simp add: trackStep_def Let_def split_def)

lemma trackStep_final:
  assumes "trackFault env = TxOk"
    and "queryTxStatus engine (fst (trackClient swapTx)) (trackReply env (snd (trackClient swapTx))) = Inr rcpt"
    and "SetString10 (GasPrice swapTx) = Some gasPrice"
  shows "trackStep engine env swapTx db =
     (let stored = (\<lambda>st. db\<lparr>swapFillTxs :=
                      map (\<lambda>t. if FillID t = FillID swapTx
                                then t\<lparr>FillStatus := st, Height := int64 (BlockNumber rcpt),
                                       ConsumedFeeAmount := showInt (gasPrice * sint (GasUsed rcpt)),
                                       UpdatedAt := trackNow env\<rparr>
                                else t)
                        (swapFillTxs db)\<rparr>)
      in (case getSwapByStartTxHash engine db (StartSwapTxHash swapTx) of
            Inl err \<Rightarrow> db
          | Inr swap \<Rightarrow>
              if ReceiptStatus rcpt = TxFailedStatus engine
              then snd (updateSwap engine (stored FillTxFailed)
                          (swap\<lparr>Status := SwapSendFailed, Log := ''fill tx is failed''\<rparr>))
              else snd (updateSwap engine (stored FillTxSuccess) (swap\<lparr>Status := SwapSuccess\<rparr>))))"
  using assms
  by (simp add: trackStep_def Let_def split_def getSwapByStartTxHash_fills split: sum.splits)

lemma exampleSwap_tampered:
  "\<not> verifySwap exampleEngine ((exampleSwap SwapSent)\<lparr>Amount := ''9999''\<rparr>)"
  by (simp add: verifySwap_def getSwapHMAC_def example_defs)

lemma example_query_deep:
  "queryTxStatus exampleEngine chainName (trackReply (exampleTrackEnv 300) c) = Inr exampleReceipt"
  by (simp add: queryTxStatus_def int64_def exampleTrackEnv_def exampleReceipt_def exampleEngine_def)

lemma example_query_shallow:
  "queryTxStatus exampleEngine chainName (trackReply (exampleTrackEnv 205) c)
     = Inl (chainName @ '', swap tx is still not finalized'')"
  by (simp add: queryTxStatus_def int64_def exampleTrackEnv_def exampleReceipt_def exampleEngine_def)

lemma showInt_105000: "showInt 105000 = ''105000''"
  by (simp add: showInt_def showNat.simps digitChar_def)

text \<open>
  Against claim C5 as stated: a tracked Sent fill transaction whose receipt is available,
  successful and deep enough, and whose swap row has had its amount changed without a new
  MAC. Neither the fill row nor the swap is touched: the fill row stays Sent, without
  height or fee. And where the receipt is not yet deep enough, the retry counter is not
  all that changes in the fill row: its update time goes from 0 to the time of the pass.
\<close>

theorem track_fill_tampered_swap_counterexample:
  "FillStatus (exampleFill FillTxSent) = FillTxSent
   \<and> queryTxStatus exampleEngine ''ETH'' (trackReply (exampleTrackEnv 300) EthClient) = Inr exampleReceipt
   \<and> ReceiptStatus exampleReceipt \<noteq> TxFailedStatus exampleEngine
   \<and> trackStep exampleEngine (exampleTrackEnv 300) (exampleFill FillTxSent)
        (exampleDB [(exampleSwap SwapSent)\<lparr>Amount := ''9999''\<rparr>] [exampleFill FillTxSent])
      = exampleDB [(exampleSwap SwapSent)\<lparr>Amount := ''9999''\<rparr>] [exampleFill FillTxSent]
   \<and> map UpdatedAt (swapFillTxs (exampleDB [exampleSwap SwapSent] [exampleFill FillTxSent])) = [0]
   \<and> map UpdatedAt
        (swapFillTxs (trackStep exampleEngine (exampleTrackEnv 205) (exampleFill FillTxSent)
           (exampleDB [exampleSwap SwapSent] [exampleFill FillTxSent]))) = [100]"
proof -
  have a: "FillStatus (exampleFill FillTxSent) = FillTxSent"
    by (simp add: exampleFill_def exampleFillTo_def)
  have b: "ReceiptStatus exampleReceipt \<noteq> TxFailedStatus exampleEngine"
    by (simp add: exampleReceipt_def exampleEngine_def)
  have c: "getSwapByStartTxHash exampleEngine
             (exampleDB [(exampleSwap SwapSent)\<lparr>Amount := ''9999''\<rparr>] ts) ''0xstart''
           = Inl ''hmac verification failure''" for ts
    using exampleSwap_tampered
    by (simp add: getSwapByStartTxHash_def exampleDB_def exampleSwap_def exampleSwapTo_def Let_def)
  have d: "trackStep exampleEngine (exampleTrackEnv 300) (exampleFill FillTxSent)
        (exampleDB [(exampleSwap SwapSent)\<lparr>Amount := ''9999''\<rparr>] [exampleFill FillTxSent])
      = exampleDB [(exampleSwap SwapSent)\<lparr>Amount := ''9999''\<rparr>] [exampleFill FillTxSent]"
  proof -
    have commit: "trackFault (exampleTrackEnv 300) = TxOk"
      by (simp add: exampleTrackEnv_def)
    have p: "SetString10 (GasPrice (exampleFill FillTxSent)) = Some 5"
      by (simp add: exampleFill_def exampleFillTo_def SetString10_def scanDigits_def
            isDigit_def digitVal_def)
    have h: "StartSwapTxHash (exampleFill FillTxSent) = ''0xstart''"
      by (simp add: exampleFill_def exampleFillTo_def)
    from trackStep_final [OF commit example_query_deep p] c [of "[exampleFill FillTxSent]"] h
    show ?thesis by (simp add: Let_def)
  qed
  have e: "map UpdatedAt (swapFillTxs (exampleDB [exampleSwap SwapSent] [exampleFill FillTxSent])) = [0]"
    by (simp add: exampleDB_def exampleFill_def exampleFillTo_def)
  have f: "map UpdatedAt
        (swapFillTxs (trackStep exampleEngine (exampleTrackEnv 205) (exampleFill FillTxSent)
           (exampleDB [exampleSwap SwapSent] [exampleFill FillTxSent]))) = [100]"
  proof -
    have commit: "trackFault (exampleTrackEnv 205) = TxOk"
      by (simp add: exampleTrackEnv_def)
    from trackStep_retry [OF commit example_query_shallow]
    show ?thesis
      by (simp add: exampleDB_def exampleFill_def exampleFillTo_def exampleTrackEnv_def)
  qed
  from a b d e f example_query_deep show ?thesis by simp
qed

text \<open>
  Claim C5, amended. Let the poller's transaction for a tracked fill transaction commit,
  and let the block numbers and the confirmation depth lie in the range of \<open>int64\<close>.
  If the latest block and the receipt are available, the receipt's block is at least the
  confirmation depth behind the latest block, the gas used is below \<open>2^63\<close> and the
  row's gas price is the decimal text of \<open>gasPrice\<close>, then: when the swap of the fill
  row loads and passes MAC verification, every fill row with the tracked id gets the
  receipt's block number as height, the decimal text of \<open>gasPrice * gasUsed\<close> as
  consumed fee and a new update time, with status Failed and the swap saved SendFailed
  with log \<open>fill tx is failed\<close> when the receipt's status is the failed one, and
  with status Success and the swap saved Success otherwise; when the swap does not load or
  fails verification, the transaction is rolled back and the store is unchanged. If the
  latest block or the receipt is unavailable, or the receipt is not yet that deep, the
  retry counter of the fill row is incremented and its update time is set; nothing else
  changes.
\<close>

theorem track_fill_outcome:
  assumes commit: "trackFault env = TxOk"
    and reply: "trackReply env (snd (trackClient swapTx)) = r"
  shows
    "(blockByNumber r = Inr cur \<and> transactionReceipt r = Inr rcpt
        \<and> inInt64Range cur \<and> inInt64Range (BlockNumber rcpt)
        \<and> inInt64Range (ETHConfirmNum engine)
        \<and> inInt64Range (BlockNumber rcpt + ETHConfirmNum engine)
        \<and> BlockNumber rcpt + ETHConfirmNum engine \<le> cur
        \<and> uint (GasUsed rcpt) < 2 ^ 63
        \<and> SetString10 (GasPrice swapTx) = Some gasPrice
      \<longrightarrow>
        (let stored = (\<lambda>st. db\<lparr>swapFillTxs :=
                         map (\<lambda>t. if FillID t = FillID swapTx
                                   then t\<lparr>FillStatus := st, Height := BlockNumber rcpt,
                                          ConsumedFeeAmount :=
                                            showInt (gasPrice * uint (GasUsed rcpt)),
                                          UpdatedAt := trackNow env\<rparr>
                                   else t)
                           (swapFillTxs db)\<rparr>);
             stamped = (\<lambda>s. s\<lparr>RecordHash := getSwapHMAC engine s\<rparr>)
         in (case getSwapByStartTxHash engine db (StartSwapTxHash swapTx) of
               Inl err \<Rightarrow> trackStep engine env swapTx db = db
             | Inr swap \<Rightarrow>
                 trackStep engine env swapTx db =
                   (if ReceiptStatus rcpt = TxFailedStatus engine
                    then saveSwapRow (stored FillTxFailed)
                           (stamped (swap\<lparr>Status := SwapSendFailed, Log := ''fill tx is failed''\<rparr>))
                    else saveSwapRow (stored FillTxSuccess)
                           (stamped (swap\<lparr>Status := SwapSuccess\<rparr>))))))
     \<and> (blockByNumber r = Inl err \<or> transactionReceipt r = Inl err
          \<or> (blockByNumber r = Inr cur \<and> transactionReceipt r = Inr rcpt
               \<and> inInt64Range cur \<and> inInt64Range (BlockNumber rcpt)
               \<and> inInt64Range (ETHConfirmNum engine)
               \<and> inInt64Range (BlockNumber rcpt + ETHConfirmNum engine)
               \<and> cur < BlockNumber rcpt + ETHConfirmNum engine)
        \<longrightarrow>
          trackStep engine env swapTx db =
            db\<lparr>swapFillTxs :=
                 map (\<lambda>t. if FillID t = FillID swapTx
                           then t\<lparr>TrackRetryCounter := TrackRetryCounter t + 1,
                                  UpdatedAt := trackNow env\<rparr>
                           else t)
                   (swapFillTxs db)\<rparr>)"
proof (intro conjI impI)
  assume a: "blockByNumber r = Inr cur \<and> transactionReceipt r = Inr rcpt
        \<and> inInt64Range cur \<and> inInt64Range (BlockNumber rcpt)
        \<and> inInt64Range (ETHConfirmNum engine)
        \<and> inInt64Range (BlockNumber rcpt + ETHConfirmNum engine)
        \<and> BlockNumber rcpt + ETHConfirmNum engine \<le> cur
        \<and> uint (GasUsed rcpt) < 2 ^ 63
        \<and> SetString10 (GasPrice swapTx) = Some gasPrice"
  then have q: "queryTxStatus engine (fst (trackClient swapTx))
                  (trackReply env (snd (trackClient swapTx))) = Inr rcpt"
    using reply by (simp add: queryTxStatus_depth)
  from a have h: "int64 (BlockNumber rcpt) = BlockNumber rcpt"
    and g: "sint (GasUsed rcpt) = uint (GasUsed rcpt)"
    by (simp_all add: int64_id sint_gas)
  from a have p: "SetString10 (GasPrice swapTx) = Some gasPrice" by simp
  note fin = trackStep_final [OF commit q p, of db, unfolded h g]
  show "let stored = (\<lambda>st. db\<lparr>swapFillTxs :=
                         map (\<lambda>t. if FillID t = FillID swapTx
                                   then t\<lparr>FillStatus := st, Height := BlockNumber rcpt,
                                          ConsumedFeeAmount :=
                                            showInt (gasPrice * uint (GasUsed rcpt)),
                                          UpdatedAt := trackNow env\<rparr>
                                   else t)
                           (swapFillTxs db)\<rparr>);
             stamped = (\<lambda>s. s\<lparr>RecordHash := getSwapHMAC engine s\<rparr>)
         in (case getSwapByStartTxHash engine db (StartSwapTxHash swapTx) of
               Inl err \<Rightarrow> trackStep engine env swapTx db = db
             | Inr swap \<Rightarrow>
                 trackStep engine env swapTx db =
                   (if ReceiptStatus rcpt = TxFailedStatus engine
                    then saveSwapRow (stored FillTxFailed)
                           (stamped (swap\<lparr>Status := SwapSendFailed, Log := ''fill tx is failed''\<rparr>))
                    else saveSwapRow (stored FillTxSuccess)
                           (stamped (swap\<lparr>Status := SwapSuccess\<rparr>))))"
    by (simp add: fin updateSwap_eq Let_def split: sum.splits)
next
  assume b: "blockByNumber r = Inl err \<or> transactionReceipt r = Inl err
          \<or> (blockByNumber r = Inr cur \<and> transactionReceipt r = Inr rcpt
               \<and> inInt64Range cur \<and> inInt64Range (BlockNumber rcpt)
               \<and> inInt64Range (ETHConfirmNum engine)
               \<and> inInt64Range (BlockNumber rcpt + ETHConfirmNum engine)
               \<and> cur < BlockNumber rcpt + ETHConfirmNum engine)"
  have "\<exists>err'. queryTxStatus engine (fst (trackClient swapTx))
                  (trackReply env (snd (trackClient swapTx))) = Inl err'"
  proof (cases "blockByNumber r = Inl err \<or> transactionReceipt r = Inl err")
    case True
    then show ?thesis using reply by (simp add: queryTxStatus_unavailable)
  next
    case False
    with b show ?thesis using reply by (simp add: queryTxStatus_depth)
  qed
  then obtain err' where "queryTxStatus engine (fst (trackClient swapTx))
                  (trackReply env (snd (trackClient swapTx))) = Inl err'" ..
  from trackStep_retry [OF commit this]
  show "trackStep engine env swapTx db =
            db\<lparr>swapFillTxs :=
                 map (\<lambda>t. if FillID t = FillID swapTx
                           then t\<lparr>TrackRetryCounter := TrackRetryCounter t + 1,
                                  UpdatedAt := trackNow env\<rparr>
                           else t)
                   (swapFillTxs db)\<rparr>" .
qed

text \<open>
  The fill row of a verified Sent swap, gas price 5, receipt in block 200 with 21000 gas
  used: with the latest block at 300 it ends Success with height 200 and fee 105000, and
  the swap Success; with the latest block at 205 only its retry counter and update time
  change.
\<close>

theorem track_fill_outcome_witness:
  "trackFault (exampleTrackEnv 300) = TxOk
   \<and> swapFillTxs (trackStep exampleEngine (exampleTrackEnv 300) (exampleFill FillTxSent)
        (exampleDB [exampleSwap SwapSent] [exampleFill FillTxSent]))
      = [(exampleFill FillTxSuccess)\<lparr>Height := 200, ConsumedFeeAmount := ''105000'', UpdatedAt := 100\<rparr>]
   \<and> map Status (swaps (trackStep exampleEngine (exampleTrackEnv 300) (exampleFill FillTxSent)
        (exampleDB [exampleSwap SwapSent] [exampleFill FillTxSent]))) = [SwapSuccess]
   \<and> trackStep exampleEngine (exampleTrackEnv 205) (exampleFill FillTxSent)
        (exampleDB [exampleSwap SwapSent] [exampleFill FillTxSent])
      = exampleDB [exampleSwap SwapSent]
          [(exampleFill FillTxSent)\<lparr>TrackRetryCounter := 1, UpdatedAt := 100\<rparr>]"
proof -
  have commit: "trackFault (exampleTrackEnv b) = TxOk" for b
    by (simp add: exampleTrackEnv_def)
  have reply: "trackReply (exampleTrackEnv b) (snd (trackClient (exampleFill FillTxSent)))
      = \<lparr>blockByNumber = Inr b, transactionReceipt = Inr exampleReceipt\<rparr>" for b
    by (simp add: exampleTrackEnv_def)
  have ranges: "inInt64Range 300 \<and> inInt64Range 205 \<and> inInt64Range (BlockNumber exampleReceipt)
      \<and> inInt64Range (ETHConfirmNum exampleEngine)
      \<and> inInt64Range (BlockNumber exampleReceipt + ETHConfirmNum exampleEngine)
      \<and> BlockNumber exampleReceipt + ETHConfirmNum exampleEngine \<le> 300
      \<and> 205 < BlockNumber exampleReceipt + ETHConfirmNum exampleEngine
      \<and> uint (GasUsed exampleReceipt) < 2 ^ 63
      \<and> uint (GasUsed exampleReceipt) = 21000
      \<and> ReceiptStatus exampleReceipt \<noteq> TxFailedStatus exampleEngine
      \<and> SetString10 (GasPrice (exampleFill FillTxSent)) = Some 5"
    by (simp add: inInt64Range_def exampleReceipt_def exampleEngine_def exampleFill_def
          exampleFillTo_def SetString10_def scanDigits_def isDigit_def digitVal_def)
  have swap: "getSwapByStartTxHash exampleEngine
                (exampleDB [exampleSwap SwapSent] [exampleFill FillTxSent])
                (StartSwapTxHash (exampleFill FillTxSent)) = Inr (exampleSwap SwapSent)"
    using exampleSwap_verified [of SwapSent]
    by (simp add: getSwapByStartTxHash_def exampleDB_def exampleFill_def exampleFillTo_def
          exampleSwap_def exampleSwapTo_def Let_def)
  note fin = track_fill_outcome [OF commit reply, of 300 300 exampleReceipt exampleEngine 5
      "exampleDB [exampleSwap SwapSent] [exampleFill FillTxSent]" "''none''", THEN conjunct1]
  note retry = track_fill_outcome [OF commit reply, of 205 205 exampleReceipt exampleEngine 5
      "exampleDB [exampleSwap SwapSent] [exampleFill FillTxSent]" "''none''", THEN conjunct2]
  have r1: "trackStep exampleEngine (exampleTrackEnv 300) (exampleFill FillTxSent)
        (exampleDB [exampleSwap SwapSent] [exampleFill FillTxSent])
      = saveSwapRow
          ((exampleDB [exampleSwap SwapSent] [exampleFill FillTxSent])
             \<lparr>swapFillTxs := [(exampleFill FillTxSuccess)\<lparr>Height := 200,
                 ConsumedFeeAmount := ''105000'', UpdatedAt := 100\<rparr>]\<rparr>)
          ((exampleSwap SwapSent)\<lparr>Status := SwapSuccess,
             RecordHash := getSwapHMAC exampleEngine ((exampleSwap SwapSent)\<lparr>Status := SwapSuccess\<rparr>)\<rparr>)"
    using fin ranges swap
    by (simp add: Let_def showInt_105000 exampleDB_def exampleFill_def exampleFillTo_def
          exampleReceipt_def exampleTrackEnv_def)
  have r2: "trackStep exampleEngine (exampleTrackEnv 205) (exampleFill FillTxSent)
        (exampleDB [exampleSwap SwapSent] [exampleFill FillTxSent])
      = exampleDB [exampleSwap SwapSent]
          [(exampleFill FillTxSent)\<lparr>TrackRetryCounter := 1, UpdatedAt := 100\<rparr>]"
    using retry ranges
    by (simp add: exampleDB_def exampleFill_def exampleFillTo_def exampleTrackEnv_def)
  have ids: "ID (exampleSwap st) = 1" for st
    by (simp add: exampleSwap_def exampleSwapTo_def Let_def)
  from r1 r2 commit [of 300] show ?thesis
    by (simp add: saveSwapRow_def exampleDB_def ids)
qed

text \<open>
  Claim C6, at a failing input: one fill row with status Sent, direction Polygon to
  Ethereum and retry counter 0, below the bound 10 of Ethereum. The select the claim
  describes returns the row; the poller's select returns nothing, whether the driver
  refuses the statement or drops its surplus argument, and whatever the comparison of
  the counter with a direction's text evaluates to.
\<close>

theorem poller_misses_second_direction:
  "pollerSelect (exampleEngine\<lparr>sqlDriver := driver, crossKindHolds := crossKind\<rparr>)
        (exampleDB [exampleSwapTo SwapMATIC2Eth ''1'' SwapSent]
           [exampleFillTo SwapMATIC2Eth FillTxSent]) = []
   \<and> specPollerSelect (exampleEngine\<lparr>sqlDriver := driver, crossKindHolds := crossKind\<rparr>)
        (exampleDB [exampleSwapTo SwapMATIC2Eth ''1'' SwapSent]
           [exampleFillTo SwapMATIC2Eth FillTxSent]) = [exampleFillTo SwapMATIC2Eth FillTxSent]"
  by (simp add: pollerSelect_def findFillTxWhere_def specPollerSelect_def specPollerSelectFor_def
        exampleDB_def exampleFillTo_def exampleEngine_def)

text \<open>
  Claim C7, at a failing input: the bound of BSC is 5 and that of Ethereum is 10, and one
  fill row has status Sent, direction Ethereum to BSC and retry counter 5. The row has
  reached the bound of its destination chain, so the select the claim describes returns
  it; the reaper's select returns nothing and the reaper's pass leaves the store as it
  was.
\<close>

theorem reaper_ignores_chain_bound:
  "maxTrackRetryOf exampleEngine SwapEth2BSC = 5
   \<and> specReaperSelect exampleEngine (exampleDB [exampleSwapTo SwapEth2BSC ''56'' SwapSent]
        [(exampleFillTo SwapEth2BSC FillTxSent)\<lparr>TrackRetryCounter := 5\<rparr>])
      = [(exampleFillTo SwapEth2BSC FillTxSent)\<lparr>TrackRetryCounter := 5\<rparr>]
   \<and> reaperSelect exampleEngine (exampleDB [exampleSwapTo SwapEth2BSC ''56'' SwapSent]
        [(exampleFillTo SwapEth2BSC FillTxSent)\<lparr>TrackRetryCounter := 5\<rparr>]) = []
   \<and> reaperPass exampleEngine (\<lambda>t. (TxOk, 100))
        (exampleDB [exampleSwapTo SwapEth2BSC ''56'' SwapSent]
           [(exampleFillTo SwapEth2BSC FillTxSent)\<lparr>TrackRetryCounter := 5\<rparr>])
      = exampleDB [exampleSwapTo SwapEth2BSC ''56'' SwapSent]
          [(exampleFillTo SwapEth2BSC FillTxSent)\<lparr>TrackRetryCounter := 5\<rparr>]"
  by (simp add: maxTrackRetryOf_def specReaperSelect_def reaperSelect_def reaperPass_def
        findFillTxWhere_def exampleDB_def exampleFillTo_def exampleEngine_def)

section \<open>Ingestor: direction and amount\<close>

text \<open>
  Against claim C8 as stated: chain id 999 is in no routing table, and the swap created
  for it from a BSC log has status TokenReceived and direction BSC to Polygon.
\<close>

theorem createSwap_unknown_chain_id_counterexample:
  "Status (createSwap (exampleLog\<lparr>LogToChainId := ''999''\<rparr>)) = SwapTokenReceived
   \<and> Direction (createSwap (exampleLog\<lparr>LogToChainId := ''999''\<rparr>)) = SwapBSC2MATIC"
  by (simp add: createSwap_def exampleLog_def SetString10_1000 Let_def)

text \<open>
  Claim C8, amended. The direction of the created swap is decided by the observed chain
  and the declared chain id: from BSC, ids 1 and 4 lead to Ethereum, from Ethereum and
  from Polygon, ids 56 and 97 lead to BSC, and every other id leads to the remaining
  chain; a log of any other chain gets the direction BSC to Ethereum. So where the
  declared id is one the ingestor knows a chain by, the direction is the routing table's
  image of the observed chain and that chain. The declared chain id has no influence on
  the status or the log of the created swap.
\<close>

theorem createSwap_direction:
  "Direction (createSwap l) =
     (case Chain l of
        ChainBSC \<Rightarrow> if LogToChainId l = ''1'' \<or> LogToChainId l = ''4'' then SwapBSC2Eth else SwapBSC2MATIC
      | ChainETH \<Rightarrow> if LogToChainId l = ''56'' \<or> LogToChainId l = ''97'' then SwapEth2BSC else SwapEth2MATIC
      | ChainMATIC \<Rightarrow> if LogToChainId l = ''56'' \<or> LogToChainId l = ''97'' then SwapMATIC2BSC else SwapMATIC2Eth
      | ChainOther name \<Rightarrow> SwapBSC2Eth)
   \<and> (knownChainId (LogToChainId l) = Some dst \<and> routingTable (Chain l) dst = Some d
        \<longrightarrow> Direction (createSwap l) = d)
   \<and> Status (createSwap (l\<lparr>LogToChainId := c\<rparr>)) = Status (createSwap l)
   \<and> Log (createSwap (l\<lparr>LogToChainId := c\<rparr>)) = Log (createSwap l)"
proof -
  have table: "knownChainId (LogToChainId l) = Some dst \<and> routingTable (Chain l) dst = Some d
        \<longrightarrow> Direction (createSwap l) = d"
    by (cases "Chain l"; cases dst)
       (auto simp: createSwap_def knownChainId_def Let_def split: if_splits)
  have rest: "Direction (createSwap l) =
     (case Chain l of
        ChainBSC \<Rightarrow> if LogToChainId l = ''1'' \<or> LogToChainId l = ''4'' then SwapBSC2Eth else SwapBSC2MATIC
      | ChainETH \<Rightarrow> if LogToChainId l = ''56'' \<or> LogToChainId l = ''97'' then SwapEth2BSC else SwapEth2MATIC
      | ChainMATIC \<Rightarrow> if LogToChainId l = ''56'' \<or> LogToChainId l = ''97'' then SwapMATIC2BSC else SwapMATIC2Eth
      | ChainOther name \<Rightarrow> SwapBSC2Eth)
   \<and> Status (createSwap (l\<lparr>LogToChainId := c\<rparr>)) = Status (createSwap l)
   \<and> Log (createSwap (l\<lparr>LogToChainId := c\<rparr>)) = Log (createSwap l)"
    by (cases "Chain l") (simp_all add: createSwap_def Let_def split: option.splits)
  from table rest show ?thesis by blast
qed

text \<open>
  A BSC log for chain id 1 is routed BSC to Ethereum, a Polygon log for chain id 56
  Polygon to BSC; the BSC log with chain id 999 has the status it has with chain id 1.
\<close>

theorem createSwap_direction_witness:
  "knownChainId (LogToChainId exampleLog) = Some ChainETH
   \<and> routingTable (Chain exampleLog) ChainETH = Some SwapBSC2Eth
   \<and> Direction (createSwap exampleLog) = SwapBSC2Eth
   \<and> Direction (createSwap (exampleLog\<lparr>Chain := ChainMATIC, LogToChainId := ''56''\<rparr>)) = SwapMATIC2BSC
   \<and> Status (createSwap (exampleLog\<lparr>LogToChainId := ''999''\<rparr>)) = Status (createSwap exampleLog)"
  using createSwap_direction [where l = exampleLog and c = "''999''" and dst = ChainETH
      and d = SwapBSC2Eth]
    createSwap_direction [where l = "exampleLog\<lparr>Chain := ChainMATIC, LogToChainId := ''56''\<rparr>"
      and c = "''56''" and dst = ChainBSC and d = SwapMATIC2BSC]
  by (simp add: exampleLog_def knownChainId_def)

lemma digitChar_digit: "d < 10 \<Longrightarrow> isDigit (digitChar d) \<and> digitVal (digitChar d) = d"
proof -
  assume "d < 10"
  then have "d \<in> {0, 1, 2, 3, 4, 5, 6, 7, 8, 9}" by auto
  then show ?thesis
    by (auto simp: digitChar_def isDigit_def digitVal_def)
qed

lemma foldl_digits_append:
  "foldl (\<lambda>a c. 10 * a + digitVal c) a (xs @ [c]) = 10 * foldl (\<lambda>a c. 10 * a + digitVal c) a xs + digitVal c"
  by simp

lemma showNat_digits:
  "showNat n \<noteq> [] \<and> list_all isDigit (showNat n)
     \<and> foldl (\<lambda>a c. 10 * a + digitVal c) 0 (showNat n) = n"
proof (induction n rule: showNat.induct)
  case (1 n)
  show ?case
  proof (cases "n < 10")
    case True
    then show ?thesis
      using digitChar_digit[of n] by (subst (1 2 3) showNat.simps) simp
  next
    case False
    with "1" have ih: "showNat (n div 10) \<noteq> [] \<and> list_all isDigit (showNat (n div 10))
     \<and> foldl (\<lambda>a c. 10 * a + digitVal c) 0 (showNat (n div 10)) = n div 10" by simp
    have d: "isDigit (digitChar (n mod 10)) \<and> digitVal (digitChar (n mod 10)) = n mod 10"
      by (rule digitChar_digit) simp
    from False ih d show ?thesis
      by (subst (1 2 3) showNat.simps) simp
  qed
qed

lemma scanDigits_showNat: "scanDigits (showNat n) = Some n"
  using showNat_digits[of n] by (simp add: scanDigits_def)

lemma isDigit_not_sign: "isDigit c \<Longrightarrow> c \<noteq> CHR ''-'' \<and> c \<noteq> CHR ''+''"
  by (auto simp: isDigit_def)

lemma SetString10_digits:
  "ds \<noteq> [] \<Longrightarrow> list_all isDigit ds \<Longrightarrow> SetString10 ds = map_option int (scanDigits ds)"
  by (cases ds) (auto simp: SetString10_def dest: isDigit_not_sign)

lemma SetString10_showInt: "SetString10 (showInt i) = Some i"
proof (cases "i < 0")
  case True
  then show ?thesis by (simp add: showInt_def SetString10_def scanDigits_showNat)
next
  case False
  then show ?thesis
    using showNat_digits[of "nat i"]
    by (simp add: showInt_def SetString10_digits scanDigits_showNat)
qed

lemma SetString10_ok_iff: "SetString10 s \<noteq> None \<longleftrightarrow> decimalText s"
proof
  assume ok: "SetString10 s \<noteq> None"
  show "decimalText s"
  proof (cases s)
    case Nil
    with ok show ?thesis by (simp add: SetString10_def)
  next
    case (Cons c cs)
    consider "c = CHR ''-''" | "c \<noteq> CHR ''-''" "c = CHR ''+''" | "c \<noteq> CHR ''-''" "c \<noteq> CHR ''+''" by blast
    then show ?thesis
    proof cases
      case 1
      with ok Cons have "cs \<noteq> [] \<and> list_all isDigit cs"
        by (auto simp: SetString10_def scanDigits_def split: if_splits)
      with 1 Cons show ?thesis
        unfolding decimalText_def by (intro exI[of _ "''-''"] exI[of _ cs]) simp
    next
      case 2
      with ok Cons have "cs \<noteq> [] \<and> list_all isDigit cs"
        by (auto simp: SetString10_def scanDigits_def split: if_splits)
      with 2 Cons show ?thesis
        unfolding decimalText_def by (intro exI[of _ "''+''"] exI[of _ cs]) simp
    next
      case 3
      with ok Cons have "list_all isDigit s"
        by (auto simp: SetString10_def scanDigits_def split: if_splits)
      with Cons show ?thesis
        unfolding decimalText_def by (intro exI[of _ "[]"] exI[of _ s]) simp
    qed
  qed
next
  assume "decimalText s"
  then obtain sign digits where s: "s = sign @ digits"
    and sign: "sign = [] \<or> sign = ''+'' \<or> sign = ''-''"
    and ds: "digits \<noteq> []" "list_all isDigit digits"
    unfolding decimalText_def by blast
  from ds have sd: "scanDigits digits \<noteq> None" by (simp add: scanDigits_def)
  from sign show "SetString10 s \<noteq> None"
  proof (elim disjE)
    assume "sign = []"
    with s ds sd show ?thesis by (simp add: SetString10_digits)
  next
    assume "sign = ''+''"
    with s sd show ?thesis by (simp add: SetString10_def)
  next
    assume "sign = ''-''"
    with s sd show ?thesis by (simp add: SetString10_def)
  qed
qed

text \<open>
  Against claim C9 as stated: \<open>-5\<close> does not parse as a non-negative integer, and the
  swap created for it has status TokenReceived. And the log of the swap rejected for the
  amount \<open>abc\<close> reads \<open>unrecongnized\<close>.
\<close>

theorem createSwap_negative_amount_counterexample:
  "\<not> parsesNonNegative ''-5''
   \<and> Status (createSwap (exampleLog\<lparr>LogAmount := ''-5''\<rparr>)) = SwapTokenReceived
   \<and> Log (createSwap (exampleLog\<lparr>LogAmount := ''abc''\<rparr>)) = ''unrecongnized swap amount: abc''"
  by (simp add: parsesNonNegative_def createSwap_def exampleLog_def SetString10_def
        scanDigits_def isDigit_def digitVal_def Let_def)

text \<open>
  Claim C9, amended. A swap is created with status TokenReceived and an empty log exactly
  when the amount is a decimal text, an optional sign \<open>+\<close> or \<open>-\<close> and at least one
  digit; so the text of every integer, negative ones included, is accepted. Otherwise
  the swap is created with status QuoteRejected and the log
  \<open>unrecongnized swap amount: \<close> followed by the amount.
\<close>

theorem createSwap_amount_status:
  "Status (createSwap l) = (if decimalText (LogAmount l) then SwapTokenReceived else SwapQuoteRejected)
   \<and> Log (createSwap l) =
       (if decimalText (LogAmount l) then [] else ''unrecongnized swap amount: '' @ LogAmount l)
   \<and> Status (createSwap (l\<lparr>LogAmount := showInt i\<rparr>)) = SwapTokenReceived"
proof -
  have a: "SetString10 (LogAmount l) = None \<longleftrightarrow> \<not> decimalText (LogAmount l)"
    using SetString10_ok_iff[of "LogAmount l"] by blast
  show ?thesis
    using a by (auto simp: createSwap_def Let_def SetString10_showInt split: option.splits)
qed

text \<open>
  The amount \<open>0\<close> is a decimal text and is accepted; \<open>abc\<close> is none and is
  rejected with the log.
\<close>

theorem createSwap_amount_status_witness:
  "decimalText ''0'' \<and> Status (createSwap (exampleLog\<lparr>LogAmount := ''0''\<rparr>)) = SwapTokenReceived
   \<and> \<not> decimalText ''abc''
   \<and> Status (createSwap (exampleLog\<lparr>LogAmount := ''abc''\<rparr>)) = SwapQuoteRejected
   \<and> Log (createSwap (exampleLog\<lparr>LogAmount := ''abc''\<rparr>)) = ''unrecongnized swap amount: abc''"
proof -
  have a: "decimalText ''0''"
    using SetString10_ok_iff [of "''0''"]
    by (simp add: SetString10_def scanDigits_def isDigit_def digitVal_def)
  have b: "\<not> decimalText ''abc''"
    using SetString10_ok_iff [of "''abc''"]
    by (simp add: SetString10_def scanDigits_def isDigit_def digitVal_def)
  from a b createSwap_amount_status [of "exampleLog\<lparr>LogAmount := ''0''\<rparr>" 0]
    createSwap_amount_status [of "exampleLog\<lparr>LogAmount := ''abc''\<rparr>" 0]
  show ?thesis by simp
qed

section \<open>Pair registry: what an update reaches\<close>

lemma UpdateSwapInstance_other_key:
  "k \<noteq> HexToAddress (PairBEP20Addr swapPair) \<Longrightarrow>
     swapPairsFromERC20Addr (UpdateSwapInstance engine reg swapPair) k = swapPairsFromERC20Addr reg k"
  by (simp add: UpdateSwapInstance_def Let_def split: option.splits)

lemma UpdateSwapInstance_mirrors:
  "bep20ToERC20 (UpdateSwapInstance engine reg swapPair) = bep20ToERC20 reg
   \<and> erc20ToBEP20 (UpdateSwapInstance engine reg swapPair) = erc20ToBEP20 reg"
  by (simp add: UpdateSwapInstance_def Let_def split: option.splits)

lemma UpdateSwapInstance_absent:
  "swapPairsFromERC20Addr reg (HexToAddress (PairBEP20Addr swapPair)) = None \<Longrightarrow>
     UpdateSwapInstance engine reg swapPair = reg"
  by (simp add: UpdateSwapInstance_def Let_def)

lemma AddSwapPairInstance_entry:
  "AddSwapPairInstance reg0 swapPair = Inr reg \<Longrightarrow>
     swapPairsFromERC20Addr reg (HexToAddress (PairERC20Addr swapPair)) \<noteq> None"
  by (auto simp: AddSwapPairInstance_def split: option.splits)

lemma example_addresses:
  "HexToAddress ''0x1'' \<noteq> HexToAddress ''0x2'' \<and> HexToAddress ''0x3'' \<noteq> HexToAddress ''0x1''
   \<and> HexToAddress ''0x2'' \<noteq> HexToAddress ''0x3''"
  by (simp add: HexToAddress_def BytesToAddress_def FromHex_def hexDigit_def)

lemma example_pair_added:
  "AddSwapPairInstance reg (examplePair b e) =
     Inr (reg\<lparr>swapPairsFromERC20Addr :=
                (swapPairsFromERC20Addr reg)
                  (HexToAddress e \<mapsto>
                     \<lparr>InsSymbol = ''TKN'', InsName = ''Token'', InsDecimals = 18, LowBound = 1,
                      UpperBound = 1000, InsBEP20Addr = HexToAddress b,
                      InsERC20Addr = HexToAddress e\<rparr>),
              bep20ToERC20 := (bep20ToERC20 reg)(HexToAddress b \<mapsto> HexToAddress e),
              erc20ToBEP20 := (erc20ToBEP20 reg)(HexToAddress e \<mapsto> HexToAddress b)\<rparr>)"
  by (simp add: AddSwapPairInstance_def examplePair_def SetString10_def scanDigits_def
        isDigit_def digitVal_def)

lemma examplePair_fields:
  "PairBEP20Addr (examplePair b e) = b \<and> PairERC20Addr (examplePair b e) = e
   \<and> PairBEP20Addr ((examplePair b e)\<lparr>Available := a\<rparr>) = b
   \<and> Available ((examplePair b e)\<lparr>Available := a\<rparr>) = a"
  by (simp add: examplePair_def)

text \<open>
  Against claim C10 as stated: two pairs, each with different BEP20 and ERC20 addresses,
  the ERC20 address of the second being the BEP20 address of the first. Updating the
  first pair with availability off removes the entry of the second pair from the
  registry.
\<close>

theorem update_removes_other_pair_counterexample:
  "HexToAddress (PairBEP20Addr (examplePair ''0x1'' ''0x2''))
     \<noteq> HexToAddress (PairERC20Addr (examplePair ''0x1'' ''0x2''))
   \<and> HexToAddress (PairBEP20Addr (examplePair ''0x3'' ''0x1''))
     \<noteq> HexToAddress (PairERC20Addr (examplePair ''0x3'' ''0x1''))
   \<and> swapPairsFromERC20Addr
        (addPair (addPair emptyRegistry (examplePair ''0x1'' ''0x2'')) (examplePair ''0x3'' ''0x1''))
        (HexToAddress ''0x1'') \<noteq> None
   \<and> swapPairsFromERC20Addr
        (UpdateSwapInstance exampleEngine
           (addPair (addPair emptyRegistry (examplePair ''0x1'' ''0x2'')) (examplePair ''0x3'' ''0x1''))
           ((examplePair ''0x1'' ''0x2'')\<lparr>Available := False\<rparr>))
        (HexToAddress ''0x1'') = None
   \<and> UpdateSwapInstance exampleEngine
        (addPair (addPair emptyRegistry (examplePair ''0x1'' ''0x2'')) (examplePair ''0x3'' ''0x1''))
        ((examplePair ''0x1'' ''0x2'')\<lparr>Available := False\<rparr>)
      \<noteq> addPair (addPair emptyRegistry (examplePair ''0x1'' ''0x2'')) (examplePair ''0x3'' ''0x1'')"
proof -
  have a: "swapPairsFromERC20Addr
        (addPair (addPair emptyRegistry (examplePair ''0x1'' ''0x2'')) (examplePair ''0x3'' ''0x1''))
        (HexToAddress ''0x1'') \<noteq> None"
    by (simp add: addPair_def example_pair_added)
  have b: "swapPairsFromERC20Addr
        (UpdateSwapInstance exampleEngine
           (addPair (addPair emptyRegistry (examplePair ''0x1'' ''0x2'')) (examplePair ''0x3'' ''0x1''))
           ((examplePair ''0x1'' ''0x2'')\<lparr>Available := False\<rparr>))
        (HexToAddress ''0x1'') = None"
    using example_addresses
    by (simp add: addPair_def example_pair_added UpdateSwapInstance_def examplePair_fields Let_def)
  from a b have c: "UpdateSwapInstance exampleEngine
        (addPair (addPair emptyRegistry (examplePair ''0x1'' ''0x2'')) (examplePair ''0x3'' ''0x1''))
        ((examplePair ''0x1'' ''0x2'')\<lparr>Available := False\<rparr>)
      \<noteq> addPair (addPair emptyRegistry (examplePair ''0x1'' ''0x2'')) (examplePair ''0x3'' ''0x1'')"
    by metis
  from a b c example_addresses show ?thesis
    by (simp add: examplePair_fields)
qed

text \<open>
  Claim C10, amended. For a pair whose decoded BEP20 and ERC20 addresses differ,
  \<open>UpdateSwapInstance\<close>, called for that pair with any bounds and any availability,
  leaves the entry that \<open>AddSwapPairInstance\<close> stored for the pair as it is, and
  leaves both mirror maps as they are; it leaves the whole registry as it is when no pair
  had been stored under an ERC20 address equal to this pair's BEP20 address.
\<close>

theorem update_keeps_own_entry:
  assumes differ: "HexToAddress (PairBEP20Addr swapPair) \<noteq> HexToAddress (PairERC20Addr swapPair)"
    and added: "AddSwapPairInstance reg0 swapPair = Inr reg"
    and same: "PairBEP20Addr update = PairBEP20Addr swapPair"
  shows "swapPairsFromERC20Addr reg (HexToAddress (PairERC20Addr swapPair)) \<noteq> None
    \<and> swapPairsFromERC20Addr (UpdateSwapInstance engine reg update)
          (HexToAddress (PairERC20Addr swapPair))
        = swapPairsFromERC20Addr reg (HexToAddress (PairERC20Addr swapPair))
    \<and> bep20ToERC20 (UpdateSwapInstance engine reg update) = bep20ToERC20 reg
    \<and> erc20ToBEP20 (UpdateSwapInstance engine reg update) = erc20ToBEP20 reg
    \<and> (swapPairsFromERC20Addr reg0 (HexToAddress (PairBEP20Addr swapPair)) = None
         \<longrightarrow> UpdateSwapInstance engine reg update = reg)"
proof -
  from added have entry: "swapPairsFromERC20Addr reg (HexToAddress (PairERC20Addr swapPair)) \<noteq> None"
    by (rule AddSwapPairInstance_entry)
  from differ same have key: "HexToAddress (PairERC20Addr swapPair) \<noteq> HexToAddress (PairBEP20Addr update)"
    by simp
  have own: "swapPairsFromERC20Addr (UpdateSwapInstance engine reg update)
          (HexToAddress (PairERC20Addr swapPair))
        = swapPairsFromERC20Addr reg (HexToAddress (PairERC20Addr swapPair))"
    using key by (rule UpdateSwapInstance_other_key)
  have whole: "swapPairsFromERC20Addr reg0 (HexToAddress (PairBEP20Addr swapPair)) = None
         \<longrightarrow> UpdateSwapInstance engine reg update = reg"
  proof
    assume none: "swapPairsFromERC20Addr reg0 (HexToAddress (PairBEP20Addr swapPair)) = None"
    from added differ none
    have "swapPairsFromERC20Addr reg (HexToAddress (PairBEP20Addr swapPair)) = None"
      by (auto simp: AddSwapPairInstance_def split: option.splits)
    with same show "UpdateSwapInstance engine reg update = reg"
      by (simp add: UpdateSwapInstance_absent)
  qed
  from entry own whole UpdateSwapInstance_mirrors [of engine reg update] show ?thesis by blast
qed

text \<open>
  A registry holding the one pair with BEP20 address \<open>0x1\<close> and ERC20 address
  \<open>0x2\<close>: updating that pair with availability off changes nothing.
\<close>

theorem update_keeps_own_entry_witness:
  "HexToAddress (PairBEP20Addr (examplePair ''0x1'' ''0x2''))
     \<noteq> HexToAddress (PairERC20Addr (examplePair ''0x1'' ''0x2''))
   \<and> AddSwapPairInstance emptyRegistry (examplePair ''0x1'' ''0x2'')
       = Inr (addPair emptyRegistry (examplePair ''0x1'' ''0x2''))
   \<and> swapPairsFromERC20Addr (addPair emptyRegistry (examplePair ''0x1'' ''0x2''))
        (HexToAddress ''0x2'') \<noteq> None
   \<and> UpdateSwapInstance exampleEngine (addPair emptyRegistry (examplePair ''0x1'' ''0x2''))
        ((examplePair ''0x1'' ''0x2'')\<lparr>Available := False\<rparr>)
      = addPair emptyRegistry (examplePair ''0x1'' ''0x2'')"
proof -
  have differ: "HexToAddress (PairBEP20Addr (examplePair ''0x1'' ''0x2''))
     \<noteq> HexToAddress (PairERC20Addr (examplePair ''0x1'' ''0x2''))"
    using example_addresses by (simp add: examplePair_fields)
  have added: "AddSwapPairInstance emptyRegistry (examplePair ''0x1'' ''0x2'')
       = Inr (addPair emptyRegistry (examplePair ''0x1'' ''0x2''))"
    by (simp add: addPair_def example_pair_added)
  have same: "PairBEP20Addr ((examplePair ''0x1'' ''0x2'')\<lparr>Available := False\<rparr>)
       = PairBEP20Addr (examplePair ''0x1'' ''0x2'')"
    by simp
  have none: "swapPairsFromERC20Addr emptyRegistry
       (HexToAddress (PairBEP20Addr (examplePair ''0x1'' ''0x2''))) = None"
    by (simp add: emptyRegistry_def)
  from update_keeps_own_entry [OF differ added same, of exampleEngine] none differ added
  show ?thesis by (simp add: examplePair_fields)
qed

end
